theory Spec2Isabelle
  imports Complex_Main "HOL-Library.AList"
begin

section \<open>The JavaScript values the generator handles\<close>

text \<open>
  The monthly report generator (class \<open>MonthlyReportGenerator\<close>) is TypeScript running on
  a JavaScript engine. Cell values handed over by the host table are untyped at run time,
  so they are modelled as JavaScript values: the primitives and a plain object (such as the
  \<open>{id, text}\<close> option object of a single-select field), which converts to a number
  and to a string as an object without conversion methods of its own does.

  A JavaScript number is an IEEE double. The model keeps the three special values apart and
  represents a finite double by the rational number it denotes; arithmetic on finite
  values is exact (rounding to the nearest double and the sign of zero are not modelled).
\<close>

datatype jsnum = NaN | PosInf | NegInf | Num rat

datatype jsval =
    JUndefined
  | JNull
  | JBool bool
  | JNum jsnum
  | JStr string
  | JObj "(string \<times> string) list"

text \<open>
  What the engine and its surroundings decide, and the source only calls: the conversion
  of a string to a number (\<open>Number(s)\<close>), of a finite number to a string
  (\<open>String(n)\<close>), \<open>Date.parse\<close>, the offset of local time from UTC at a given
  instant, and the clock read by \<open>new Date()\<close> (milliseconds since the epoch).
\<close>

record jsenv =
  stringToNumber :: "string \<Rightarrow> jsnum"
  numberToString :: "rat \<Rightarrow> string"
  dateParse :: "string \<Rightarrow> jsnum"
  localTZA :: "int \<Rightarrow> int"
  clockNow :: int

text \<open>\<open>isNaN\<close> on a number, the operators \<open>+\<close>, \<open><\<close> and \<open>>\<close> on numbers.\<close>

definition isNaN :: "jsnum \<Rightarrow> bool" where
  "isNaN n = (n = NaN)"

fun jsadd :: "jsnum \<Rightarrow> jsnum \<Rightarrow> jsnum" where
  "jsadd NaN _ = NaN"
| "jsadd _ NaN = NaN"
| "jsadd (Num a) (Num b) = Num (a + b)"
| "jsadd PosInf NegInf = NaN"
| "jsadd NegInf PosInf = NaN"
| "jsadd PosInf _ = PosInf"
| "jsadd _ PosInf = PosInf"
| "jsadd NegInf _ = NegInf"
| "jsadd _ NegInf = NegInf"

fun jslt :: "jsnum \<Rightarrow> jsnum \<Rightarrow> bool" where
  "jslt NaN _ = False"
| "jslt _ NaN = False"
| "jslt (Num a) (Num b) = (a < b)"
| "jslt _ NegInf = False"
| "jslt NegInf _ = True"
| "jslt PosInf _ = False"
| "jslt _ PosInf = True"

definition jsgt :: "jsnum \<Rightarrow> jsnum \<Rightarrow> bool" where
  "jsgt a b = jslt b a"

text \<open>\<open>Math.round(x * 100) / 100\<close>, in its three steps.\<close>

definition times100 :: "jsnum \<Rightarrow> jsnum" where
  "times100 x = (case x of Num q \<Rightarrow> Num (q * 100) | _ \<Rightarrow> x)"

definition mathRound :: "jsnum \<Rightarrow> jsnum" where
  "mathRound x = (case x of Num q \<Rightarrow> Num (of_int \<lfloor>q + 1 / 2\<rfloor>) | _ \<Rightarrow> x)"

definition over100 :: "jsnum \<Rightarrow> jsnum" where
  "over100 x = (case x of Num q \<Rightarrow> Num (q / 100) | _ \<Rightarrow> x)"

definition round2 :: "jsnum \<Rightarrow> jsnum" where
  "round2 x = over100 (mathRound (times100 x))"

text \<open>Truthiness (\<open>!v\<close> is its negation), \<open>Number(v)\<close> and \<open>String(v)\<close>.\<close>

fun truthy :: "jsval \<Rightarrow> bool" where
  "truthy JUndefined = False"
| "truthy JNull = False"
| "truthy (JBool b) = b"
| "truthy (JNum n) = (n \<noteq> NaN \<and> n \<noteq> Num 0)"
| "truthy (JStr s) = (s \<noteq> [])"
| "truthy (JObj ps) = True"

definition objectString :: string where
  "objectString = ''[object Object]''"

fun toNumber :: "jsenv \<Rightarrow> jsval \<Rightarrow> jsnum" where
  "toNumber env JUndefined = NaN"
| "toNumber env JNull = Num 0"
| "toNumber env (JBool b) = (if b then Num 1 else Num 0)"
| "toNumber env (JNum n) = n"
| "toNumber env (JStr s) = stringToNumber env s"
| "toNumber env (JObj ps) = NaN"

fun toString :: "jsenv \<Rightarrow> jsval \<Rightarrow> string" where
  "toString env JUndefined = ''undefined''"
| "toString env JNull = ''null''"
| "toString env (JBool b) = (if b then ''true'' else ''false'')"
| "toString env (JNum NaN) = ''NaN''"
| "toString env (JNum PosInf) = ''Infinity''"
| "toString env (JNum NegInf) = ''-Infinity''"
| "toString env (JNum (Num q)) = numberToString env q"
| "toString env (JStr s) = s"
| "toString env (JObj ps) = objectString"

subsection \<open>Dates\<close>

text \<open>
  \<open>new Date(v)\<close> holds a time value: \<open>NaN\<close> for an invalid date, else a whole number
  of milliseconds since the epoch, at most \<open>8.64e15\<close> in magnitude. A string (and an
  object, through its string conversion) goes through \<open>Date.parse\<close>, any other value
  through \<open>Number\<close>.
\<close>

definition timeClip :: "jsnum \<Rightarrow> jsnum" where
  "timeClip n =
     (case n of
        Num q \<Rightarrow>
          if \<bar>q\<bar> > 8640000000000000 then NaN
          else Num (of_int (if 0 \<le> q then \<lfloor>q\<rfloor> else \<lceil>q\<rceil>))
      | _ \<Rightarrow> NaN)"

definition newDate :: "jsenv \<Rightarrow> jsval \<Rightarrow> jsnum" where
  "newDate env v =
     timeClip
       (case v of
          JStr s \<Rightarrow> dateParse env s
        | JObj ps \<Rightarrow> dateParse env objectString
        | _ \<Rightarrow> toNumber env v)"

text \<open>
  \<open>getMonth()\<close> and \<open>getFullYear()\<close> read the proleptic Gregorian calendar at local
  time. The day number is split into 400-year eras; within an era the year and the
  month (counted from March) follow from the day of the era.
\<close>

definition msPerDay :: int where
  "msPerDay = 86400000"

definition dayOfEra :: "int \<Rightarrow> int" where
  "dayOfEra d = (d + 719468) mod 146097"

definition yearOfEra :: "int \<Rightarrow> int" where
  "yearOfEra d =
     (let doe = dayOfEra d
      in (doe - doe div 1460 + doe div 36524 - doe div 146096) div 365)"

definition marchMonth :: "int \<Rightarrow> int" where
  "marchMonth d =
     (let doe = dayOfEra d; yoe = yearOfEra d;
          doy = doe - (365 * yoe + yoe div 4 - yoe div 100)
      in (5 * doy + 2) div 153)"

definition monthFromTime :: "int \<Rightarrow> int" where
  "monthFromTime t = (marchMonth (t div msPerDay) + 2) mod 12"

definition yearFromTime :: "int \<Rightarrow> int" where
  "yearFromTime t =
     (let d = t div msPerDay
      in yearOfEra d + ((d + 719468) div 146097) * 400
           + (if marchMonth d < 10 then 0 else 1))"

definition localTime :: "jsenv \<Rightarrow> int \<Rightarrow> int" where
  "localTime env t = t + localTZA env t"

definition getMonth :: "jsenv \<Rightarrow> jsnum \<Rightarrow> jsnum" where
  "getMonth env d =
     (case d of
        Num q \<Rightarrow> Num (of_int (monthFromTime (localTime env \<lfloor>q\<rfloor>)))
      | _ \<Rightarrow> NaN)"

text \<open>\<open>a !== b\<close> on numbers is the negation of \<open>strictEq\<close>: \<open>NaN\<close> equals nothing.\<close>

definition strictEq :: "jsnum \<Rightarrow> jsnum \<Rightarrow> bool" where
  "strictEq a b = (a \<noteq> NaN \<and> a = b)"

definition getFullYear :: "jsenv \<Rightarrow> int \<Rightarrow> int" where
  "getFullYear env t = yearFromTime (localTime env t)"

section \<open>The host table platform\<close>

subsection \<open>Field names\<close>

text \<open>
  The constants \<open>SOURCE_FIELD_NAMES\<close> and \<open>TARGET_FIELD_NAMES\<close> of the class. The
  display names are Chinese; each is given here by the bytes of its UTF-8 encoding, which
  compare equal exactly when the JavaScript strings do.
\<close>

definition SOURCE_PRODUCT_CATEGORY :: string where
  "SOURCE_PRODUCT_CATEGORY =
     [CHR 0xE4, CHR 0xBA, CHR 0xA7, CHR 0xE5, CHR 0x93, CHR 0x81, CHR 0xE7, CHR 0xB1,
      CHR 0xBB, CHR 0xE5, CHR 0x88, CHR 0xAB]"

definition SOURCE_OUT_DATE :: string where
  "SOURCE_OUT_DATE =
     [CHR 0xE7, CHR 0x94, CHR 0xB3, CHR 0xE8, CHR 0xAF, CHR 0xB7, CHR 0xE5, CHR 0x87,
      CHR 0xBA, CHR 0xE5, CHR 0xBA, CHR 0x93, CHR 0xE6, CHR 0x97, CHR 0xA5, CHR 0xE6,
      CHR 0x9C, CHR 0x9F]"

definition SOURCE_SHARES :: string where
  "SOURCE_SHARES =
     [CHR 0xE4, CHR 0xBB, CHR 0xBD, CHR 0xE6, CHR 0x95, CHR 0xB0]"

definition SOURCE_PREPARATION_FEE :: string where
  "SOURCE_PREPARATION_FEE =
     [CHR 0xE5, CHR 0x88, CHR 0xB6, CHR 0xE5, CHR 0xA4, CHR 0x87, CHR 0xE8, CHR 0xB4,
      CHR 0xB9]"

definition SOURCE_REWARD_DEDUCTION :: string where
  "SOURCE_REWARD_DEDUCTION =
     [CHR 0xE5, CHR 0x87, CHR 0xBA, CHR 0xE5, CHR 0xBA, CHR 0x93, CHR 0xE8, CHR 0xAE,
      CHR 0xA2, CHR 0xE5, CHR 0x8D, CHR 0x95, CHR 0xEF, CHR 0xBC, CHR 0x88, CHR 0xE5,
      CHR 0xA4, CHR 0x9A, CHR 0xE5, CHR 0x8D, CHR 0x95, CHR 0xEF, CHR 0xBC, CHR 0x89,
      CHR 0xE5, CHR 0xA5, CHR 0x96, CHR 0xE5, CHR 0x8A, CHR 0xB1, CHR 0xE6, CHR 0x89,
      CHR 0xA3, CHR 0xE5, CHR 0x87, CHR 0x8F]"

definition SOURCE_CANCEL_FEE :: string where
  "SOURCE_CANCEL_FEE =
     [CHR 0xE5, CHR 0x88, CHR 0xB6, CHR 0xE5, CHR 0x89, CHR 0x82, CHR 0xE5, CHR 0x8F,
      CHR 0x96, CHR 0xE6, CHR 0xB6, CHR 0x88, CHR 0xE6, CHR 0x94, CHR 0xB6, CHR 0xE5,
      CHR 0x8F, CHR 0x96, CHR 0xE8, CHR 0xB4, CHR 0xB9, CHR 0xE7, CHR 0x94, CHR 0xA8]"

definition SOURCE_URGENT_FEE :: string where
  "SOURCE_URGENT_FEE =
     [CHR 0xE5, CHR 0x88, CHR 0xB6, CHR 0xE5, CHR 0x89, CHR 0x82, CHR 0xE5, CHR 0x8A,
      CHR 0xA0, CHR 0xE6, CHR 0x80, CHR 0xA5, CHR 0x2F, CHR 0xE9, CHR 0x9D, CHR 0x9E,
      CHR 0xE6, CHR 0xAD, CHR 0xA3, CHR 0xE5, CHR 0xB8, CHR 0xB8, CHR 0xE5, CHR 0x87,
      CHR 0xBA, CHR 0xE5, CHR 0xBA, CHR 0x93, CHR 0xE6, CHR 0x97, CHR 0xB6, CHR 0xE9,
      CHR 0x97, CHR 0xB4, CHR 0xE6, CHR 0x94, CHR 0xB6, CHR 0xE5, CHR 0x8F, CHR 0x96,
      CHR 0xE8, CHR 0xB4, CHR 0xB9, CHR 0xE7, CHR 0x94, CHR 0xA8]"

definition TARGET_PROJECT :: string where
  "TARGET_PROJECT =
     [CHR 0xE9, CHR 0xA1, CHR 0xB9, CHR 0xE7, CHR 0x9B, CHR 0xAE]"

definition TARGET_PERSON_COUNT :: string where
  "TARGET_PERSON_COUNT =
     [CHR 0xE4, CHR 0xBA, CHR 0xBA, CHR 0xE6, CHR 0x95, CHR 0xB0]"

definition TARGET_SHARES :: string where
  "TARGET_SHARES =
     [CHR 0xE4, CHR 0xBB, CHR 0xBD, CHR 0xE6, CHR 0x95, CHR 0xB0]"

definition TARGET_PREPARATION_FEE :: string where
  "TARGET_PREPARATION_FEE =
     [CHR 0xE5, CHR 0x88, CHR 0xB6, CHR 0xE5, CHR 0xA4, CHR 0x87, CHR 0xE8, CHR 0xB4,
      CHR 0xB9]"

definition TARGET_REWARD_DEDUCTION :: string where
  "TARGET_REWARD_DEDUCTION =
     [CHR 0xE5, CHR 0x87, CHR 0xBA, CHR 0xE5, CHR 0xBA, CHR 0x93, CHR 0xE8, CHR 0xAE,
      CHR 0xA2, CHR 0xE5, CHR 0x8D, CHR 0x95, CHR 0xE5, CHR 0xA5, CHR 0x96, CHR 0xE5,
      CHR 0x8A, CHR 0xB1, CHR 0xE6, CHR 0x89, CHR 0xA3, CHR 0xE5, CHR 0x87, CHR 0x8F]"

definition TARGET_CANCEL_FEE :: string where
  "TARGET_CANCEL_FEE =
     [CHR 0xE5, CHR 0x88, CHR 0xB6, CHR 0xE5, CHR 0x89, CHR 0x82, CHR 0xE5, CHR 0x8F,
      CHR 0x96, CHR 0xE6, CHR 0xB6, CHR 0x88, CHR 0xE6, CHR 0x94, CHR 0xB6, CHR 0xE5,
      CHR 0x8F, CHR 0x96, CHR 0xE8, CHR 0xB4, CHR 0xB9, CHR 0xE7, CHR 0x94, CHR 0xA8]"

definition TARGET_URGENT_FEE :: string where
  "TARGET_URGENT_FEE =
     [CHR 0xE5, CHR 0x88, CHR 0xB6, CHR 0xE5, CHR 0x89, CHR 0x82, CHR 0xE5, CHR 0x8A,
      CHR 0xA0, CHR 0xE6, CHR 0x80, CHR 0xA5, CHR 0x2F, CHR 0xE9, CHR 0x9D, CHR 0x9E,
      CHR 0xE6, CHR 0xAD, CHR 0xA3, CHR 0xE5, CHR 0xB8, CHR 0xB8, CHR 0xE5, CHR 0x87,
      CHR 0xBA, CHR 0xE5, CHR 0xBA, CHR 0x93, CHR 0xE6, CHR 0x97, CHR 0xB6, CHR 0xE9,
      CHR 0x97, CHR 0xB4, CHR 0xE6, CHR 0x94, CHR 0xB6, CHR 0xE5, CHR 0x8F, CHR 0x96,
      CHR 0xE8, CHR 0xB4, CHR 0xB9, CHR 0xE7, CHR 0x94, CHR 0xA8]"

subsection \<open>Errors, host calls and diagnostics\<close>

text \<open>
  Every \<open>new Error(...)\<close> of the class is a constructor of \<open>err\<close> (the message text
  is Chinese; its interpolated values are the constructor's arguments). A thrown value is an
  \<open>Error\<close> instance or something else; the host may throw either.
\<close>

datatype err =
    EmptySourceId
  | MonthOutOfRange
  | TableNotFound string
  | CreateTableFailed
  | NewTableInaccessible string
  | CreateFieldsFailed
  | NoSourceFields
  | MissingSourceFields "string list"
  | NoRecords
  | UnknownSourceDataError
  | NoDataForMonth jsnum
  | NoTargetFields
  | MissingTargetFields "string list"
  | IncompleteFieldIds
  | NoRecordWritten
  | UnknownWriteError
  | UnknownGenerateError
  | HostFailure string

datatype thrown = Error err | NonError

record fieldmeta =
  fieldId :: string
  fieldName :: string

datatype fieldtype = SingleSelect | Number | Currency

datatype fieldproperty = NoProperty | FormatterInteger | FormatterRounded2 | CurrencyCNY

record fieldconfig =
  configType :: fieldtype
  configName :: string
  configProperty :: fieldproperty

text \<open>
  The name of the report table is the template
  \<open>${year}<nian>${monthStr}<yue>...\<close> with its two holes filled.
\<close>

record tableName =
  nameYear :: int
  nameMonth :: string

text \<open>
  The row object of the bulk insert, \<open>{fields: {[id]: v, ...}}\<close>, as the bindings of its
  literal in the order written.
\<close>

type_synonym row = "(string \<times> jsval) list"

text \<open>The calls made on the host, in order: the first argument of a table call is the table's id.\<close>

datatype call =
    GetTableById string
  | AddTable tableName
  | AddField string fieldconfig
  | GetFieldMetaList string
  | GetField string string
  | GetRecordIdList string
  | GetValue string string string
  | AddRecords string "row list"
  | AddRecord string
  | SetValue string string string jsval

text \<open>The console: every \<open>console.log\<close>, \<open>console.warn\<close> and \<open>console.error\<close> of the class.\<close>

datatype level = LogInfo | LogWarn | LogError

datatype diag =
    CreatingTable tableName
  | CreatingFields
  | FetchingSourceData
  | WritingData
  | ReportDone
  | GenerateError thrown
  | CreateFieldsError thrown
  | SourceDataError thrown
  | FoundRecords nat
  | InvalidDateFormat string jsval
  | DateParseError string jsval
  | NoCategorySkipped string
  | GetFieldValueFailed thrown
  | RecordError string thrown
  | ProcessingSummary nat nat nat
  | StartWriting nat
  | BulkAdded nat
  | BulkFailed thrown
  | AddRowError string thrown
  | AddedSummary nat nat
  | PartialWrite nat nat
  | WriteError thrown

record world =
  calls :: "call list"
  console :: "(level \<times> diag) list"

text \<open>
  A table handle answers each call with a result or a thrown value, the same for the
  same arguments throughout a run. A field handle is identified with the field's id.
  \<open>addRecordHost n\<close> is the answer to the \<open>n\<close>-th \<open>addRecord()\<close> of a run (counted
  from 0).
\<close>

record table =
  tableId :: string
  getFieldMetaListHost :: "thrown + fieldmeta list option"
  getFieldHost :: "string \<Rightarrow> thrown option"
  getRecordIdListHost :: "thrown + string list option"
  getValueHost :: "string \<Rightarrow> string \<Rightarrow> thrown + jsval"
  addFieldHost :: "fieldconfig \<Rightarrow> thrown option"
  addRecordsHost :: "row list \<Rightarrow> thrown option"
  addRecordHost :: "nat \<Rightarrow> thrown + string"
  setValueHost :: "string \<Rightarrow> string \<Rightarrow> jsval \<Rightarrow> thrown option"

record base =
  getTableByIdHost :: "string \<Rightarrow> thrown + table option"
  addTableHost :: "tableName \<Rightarrow> thrown + string option option"

subsection \<open>Sequencing with exceptions\<close>

text \<open>
  A computation that may throw is a function from the state before to its outcome (a
  thrown value or a result) and the state after. An asynchronous method of the class is
  such a computation on the world; \<open>await\<close> in sequence is \<open>bindE\<close>, and
  \<open>try { m } catch (e) { h }\<close> is \<open>tryCatch m h\<close>: what \<open>m\<close> did to the state before it
  threw stays done.
\<close>

type_synonym ('s, 'a) exn = "'s \<Rightarrow> (thrown + 'a) \<times> 's"

type_synonym 'a io = "(world, 'a) exn"

definition returnE :: "'a \<Rightarrow> ('s, 'a) exn" where
  "returnE x s = (Inr x, s)"

definition throwE :: "thrown \<Rightarrow> ('s, 'a) exn" where
  "throwE e s = (Inl e, s)"

definition bindE :: "('s, 'a) exn \<Rightarrow> ('a \<Rightarrow> ('s, 'b) exn) \<Rightarrow> ('s, 'b) exn" where
  "bindE m f s = (case m s of (Inl e, s') \<Rightarrow> (Inl e, s') | (Inr x, s') \<Rightarrow> f x s')"

definition tryCatch :: "('s, 'a) exn \<Rightarrow> (thrown \<Rightarrow> ('s, 'a) exn) \<Rightarrow> ('s, 'a) exn" where
  "tryCatch m h s = (case m s of (Inl e, s') \<Rightarrow> h e s' | (Inr x, s') \<Rightarrow> (Inr x, s'))"

text \<open>A \<open>for (const x of xs) { f x }\<close> loop: an exception leaving the body ends it.\<close>

fun forOf :: "('a \<Rightarrow> ('s, unit) exn) \<Rightarrow> 'a list \<Rightarrow> ('s, unit) exn" where
  "forOf f [] = returnE ()"
| "forOf f (x # xs) = bindE (f x) (\<lambda>_. forOf f xs)"

definition consoleOut :: "level \<Rightarrow> diag \<Rightarrow> unit io" where
  "consoleOut l d w = (Inr (), w\<lparr>console := console w @ [(l, d)]\<rparr>)"

definition hostCall :: "call \<Rightarrow> thrown + 'a \<Rightarrow> 'a io" where
  "hostCall c r w = (r, w\<lparr>calls := calls w @ [c]\<rparr>)"

definition unitResult :: "thrown option \<Rightarrow> thrown + unit" where
  "unitResult r = (case r of None \<Rightarrow> Inr () | Some e \<Rightarrow> Inl e)"

text \<open>
  The handler shared by the three outer \<open>catch\<close> blocks:
  \<open>if (error instanceof Error) throw error; else throw new Error(unknown)\<close>.
\<close>

definition rethrow :: "err \<Rightarrow> thrown \<Rightarrow> thrown" where
  "rethrow unknown e = (case e of Error m \<Rightarrow> Error m | NonError \<Rightarrow> Error unknown)"

text \<open>The host calls, each recorded in the world.\<close>

definition getTableById :: "base \<Rightarrow> string \<Rightarrow> table option io" where
  "getTableById b tid = hostCall (GetTableById tid) (getTableByIdHost b tid)"

definition addTable :: "base \<Rightarrow> tableName \<Rightarrow> string option option io" where
  "addTable b nm = hostCall (AddTable nm) (addTableHost b nm)"

definition addField :: "table \<Rightarrow> fieldconfig \<Rightarrow> unit io" where
  "addField t c = hostCall (AddField (tableId t) c) (unitResult (addFieldHost t c))"

definition getFieldMetaList :: "table \<Rightarrow> fieldmeta list option io" where
  "getFieldMetaList t = hostCall (GetFieldMetaList (tableId t)) (getFieldMetaListHost t)"

definition getField :: "table \<Rightarrow> string \<Rightarrow> unit io" where
  "getField t fid = hostCall (GetField (tableId t) fid) (unitResult (getFieldHost t fid))"

definition getRecordIdList :: "table \<Rightarrow> string list option io" where
  "getRecordIdList t = hostCall (GetRecordIdList (tableId t)) (getRecordIdListHost t)"

definition getValue :: "table \<Rightarrow> string \<Rightarrow> string \<Rightarrow> jsval io" where
  "getValue t fid recordId =
     hostCall (GetValue (tableId t) fid recordId) (getValueHost t fid recordId)"

definition addRecords :: "table \<Rightarrow> row list \<Rightarrow> unit io" where
  "addRecords t records =
     hostCall (AddRecords (tableId t) records) (unitResult (addRecordsHost t records))"

definition addRecord :: "table \<Rightarrow> nat \<Rightarrow> string io" where
  "addRecord t n = hostCall (AddRecord (tableId t)) (addRecordHost t n)"

definition setValue :: "table \<Rightarrow> string \<Rightarrow> string \<Rightarrow> jsval \<Rightarrow> unit io" where
  "setValue t fid recordId v =
     hostCall (SetValue (tableId t) fid recordId v) (unitResult (setValueHost t fid recordId v))"

text \<open>
  A block with local variables \<open>'v\<close> runs on the pair of its variables and the world:
  \<open>inWorld\<close> lifts a method call into the block, \<open>modifyVars\<close> assigns, and
  \<open>runVars\<close> runs the block from initial values and hands back the final ones.
\<close>

definition inWorld :: "'a io \<Rightarrow> ('v \<times> world, 'a) exn" where
  "inWorld m s = (case m (snd s) of (r, w') \<Rightarrow> (r, (fst s, w')))"

definition modifyVars :: "('v \<Rightarrow> 'v) \<Rightarrow> ('v \<times> world, unit) exn" where
  "modifyVars f s = (Inr (), (f (fst s), snd s))"

definition runVars :: "'v \<Rightarrow> ('v \<times> world, 'a) exn \<Rightarrow> 'v io" where
  "runVars v0 m w =
     (case m (v0, w) of
        (Inl e, (v, w')) \<Rightarrow> (Inl e, w')
      | (Inr x, (v, w')) \<Rightarrow> (Inr v, w'))"

section \<open>The report generator\<close>

subsection \<open>createFields\<close>

definition targetFieldConfigs :: "fieldconfig list" where
  "targetFieldConfigs =
     [\<lparr>configType = SingleSelect, configName = TARGET_PROJECT, configProperty = NoProperty\<rparr>,
      \<lparr>configType = Number, configName = TARGET_PERSON_COUNT,
         configProperty = FormatterInteger\<rparr>,
      \<lparr>configType = Number, configName = TARGET_SHARES, configProperty = FormatterRounded2\<rparr>,
      \<lparr>configType = Currency, configName = TARGET_PREPARATION_FEE,
         configProperty = CurrencyCNY\<rparr>,
      \<lparr>configType = Currency, configName = TARGET_REWARD_DEDUCTION,
         configProperty = CurrencyCNY\<rparr>,
      \<lparr>configType = Currency, configName = TARGET_CANCEL_FEE, configProperty = CurrencyCNY\<rparr>,
      \<lparr>configType = Currency, configName = TARGET_URGENT_FEE, configProperty = CurrencyCNY\<rparr>]"

definition createFields :: "table \<Rightarrow> unit io" where
  "createFields t =
     tryCatch (forOf (addField t) targetFieldConfigs)
       (\<lambda>e. bindE (consoleOut LogError (CreateFieldsError e))
          (\<lambda>_. throwE (Error CreateFieldsFailed)))"

subsection \<open>Resolving field ids by display name\<close>

text \<open>
  \<open>fields.find(field => field.name === nm)?.id\<close> is \<open>findFieldId fields nm\<close>; the test
  \<open>!id\<close> holds of an id that is undefined or the empty string; \<open>id!\<close> leaves the id as
  it is (it is only applied to ids that passed the test).
\<close>

definition findFieldId :: "fieldmeta list \<Rightarrow> string \<Rightarrow> string option" where
  "findFieldId fieldMetas nm =
     map_option fieldId (find (\<lambda>field. fieldName field = nm) fieldMetas)"

definition idMissing :: "string option \<Rightarrow> bool" where
  "idMissing i = (case i of None \<Rightarrow> True | Some s \<Rightarrow> s = [])"

definition pushIfMissing :: "string option \<Rightarrow> string \<Rightarrow> string list \<Rightarrow> string list" where
  "pushIfMissing i nm missingFields =
     (if idMissing i then missingFields @ [nm] else missingFields)"

definition assertId :: "string option \<Rightarrow> string" where
  "assertId i = (case i of Some s \<Rightarrow> s | None \<Rightarrow> [])"

record sourceFieldIds =
  productCategoryFieldId :: string
  outDateFieldId :: string
  sharesFieldId :: string
  preparationFeeFieldId :: string
  rewardDeductionFieldId :: string
  cancelFeeFieldId :: string
  urgentFeeFieldId :: string

definition resolveSourceFields :: "fieldmeta list \<Rightarrow> string list + sourceFieldIds" where
  "resolveSourceFields fieldMetas =
     (let pc = findFieldId fieldMetas SOURCE_PRODUCT_CATEGORY;
          od = findFieldId fieldMetas SOURCE_OUT_DATE;
          sh = findFieldId fieldMetas SOURCE_SHARES;
          pf = findFieldId fieldMetas SOURCE_PREPARATION_FEE;
          rd = findFieldId fieldMetas SOURCE_REWARD_DEDUCTION;
          cf = findFieldId fieldMetas SOURCE_CANCEL_FEE;
          uf = findFieldId fieldMetas SOURCE_URGENT_FEE;
          m1 = pushIfMissing pc SOURCE_PRODUCT_CATEGORY [];
          m2 = pushIfMissing od SOURCE_OUT_DATE m1;
          m3 = pushIfMissing sh SOURCE_SHARES m2;
          m4 = pushIfMissing pf SOURCE_PREPARATION_FEE m3;
          m5 = pushIfMissing rd SOURCE_REWARD_DEDUCTION m4;
          m6 = pushIfMissing cf SOURCE_CANCEL_FEE m5;
          missingFields = pushIfMissing uf SOURCE_URGENT_FEE m6
      in if missingFields \<noteq> [] then Inl missingFields
         else Inr \<lparr>productCategoryFieldId = assertId pc, outDateFieldId = assertId od,
                  sharesFieldId = assertId sh, preparationFeeFieldId = assertId pf,
                  rewardDeductionFieldId = assertId rd, cancelFeeFieldId = assertId cf,
                  urgentFeeFieldId = assertId uf\<rparr>)"

record targetFieldIds =
  projectFieldId :: string
  personCountFieldId :: string
  sharesTargetId :: string
  preparationFeeTargetId :: string
  rewardDeductionTargetId :: string
  cancelFeeTargetId :: string
  urgentFeeTargetId :: string

definition resolveTargetFields :: "fieldmeta list \<Rightarrow> string list + targetFieldIds" where
  "resolveTargetFields fieldMetas =
     (let pj = findFieldId fieldMetas TARGET_PROJECT;
          pn = findFieldId fieldMetas TARGET_PERSON_COUNT;
          sh = findFieldId fieldMetas TARGET_SHARES;
          pf = findFieldId fieldMetas TARGET_PREPARATION_FEE;
          rd = findFieldId fieldMetas TARGET_REWARD_DEDUCTION;
          cf = findFieldId fieldMetas TARGET_CANCEL_FEE;
          uf = findFieldId fieldMetas TARGET_URGENT_FEE;
          m1 = pushIfMissing pj TARGET_PROJECT [];
          m2 = pushIfMissing pn TARGET_PERSON_COUNT m1;
          m3 = pushIfMissing sh TARGET_SHARES m2;
          m4 = pushIfMissing pf TARGET_PREPARATION_FEE m3;
          m5 = pushIfMissing rd TARGET_REWARD_DEDUCTION m4;
          m6 = pushIfMissing cf TARGET_CANCEL_FEE m5;
          missingFields = pushIfMissing uf TARGET_URGENT_FEE m6
      in if missingFields \<noteq> [] then Inl missingFields
         else Inr \<lparr>projectFieldId = assertId pj, personCountFieldId = assertId pn,
                  sharesTargetId = assertId sh, preparationFeeTargetId = assertId pf,
                  rewardDeductionTargetId = assertId rd, cancelFeeTargetId = assertId cf,
                  urgentFeeTargetId = assertId uf\<rparr>)"

subsection \<open>getSourceData\<close>

text \<open>
  The group accumulator. \<open>count\<close> only ever holds a natural number (it starts at 0 and
  grows by 1), exact in a double below \<open>2^53\<close>; the five sums are JavaScript numbers.
  \<open>groupedData\<close> is a plain object used as a dictionary: an association list of its own
  properties in the order of insertion. (Keys that JavaScript treats apart are not
  modelled: array indices, which it would list first, and the names every object
  inherits.)
\<close>

record accumulator =
  count :: nat
  shares :: jsnum
  preparationFee :: jsnum
  rewardDeduction :: jsnum
  cancelFee :: jsnum
  urgentFee :: jsnum

type_synonym groups = "(string \<times> accumulator) list"

definition zeroAccumulator :: accumulator where
  "zeroAccumulator =
     \<lparr>count = 0, shares = Num 0, preparationFee = Num 0, rewardDeduction = Num 0,
      cancelFee = Num 0, urgentFee = Num 0\<rparr>"

record loopVars =
  groupedData :: groups
  processedRecordCount :: nat
  matchedRecordCount :: nat

definition initialVars :: loopVars where
  "initialVars = \<lparr>groupedData = [], processedRecordCount = 0, matchedRecordCount = 0\<rparr>"

text \<open>The statements of the loop body that assign.\<close>

definition incMatched :: "loopVars \<Rightarrow> loopVars" where
  "incMatched vs = vs\<lparr>matchedRecordCount := matchedRecordCount vs + 1\<rparr>"

definition incProcessed :: "loopVars \<Rightarrow> loopVars" where
  "incProcessed vs = vs\<lparr>processedRecordCount := processedRecordCount vs + 1\<rparr>"

definition initGroup :: "string \<Rightarrow> loopVars \<Rightarrow> loopVars" where
  "initGroup categoryKey vs =
     (if map_of (groupedData vs) categoryKey = None
      then vs\<lparr>groupedData := groupedData vs @ [(categoryKey, zeroAccumulator)]\<rparr>
      else vs)"

definition updateGroup :: "string \<Rightarrow> (accumulator \<Rightarrow> accumulator) \<Rightarrow> loopVars \<Rightarrow> loopVars" where
  "updateGroup categoryKey f vs =
     vs\<lparr>groupedData := AList.map_entry categoryKey f (groupedData vs)\<rparr>"

text \<open>
  The closure \<open>safeGetNumberValue\<close>: the read of the cell, the test for \<open>null\<close> and
  \<open>undefined\<close>, the conversion, the test \<open>isNaN\<close>; the \<open>catch\<close> warns and returns 0.
\<close>

definition safeGetNumberValue :: "jsenv \<Rightarrow> table \<Rightarrow> string \<Rightarrow> string \<Rightarrow> jsnum io" where
  "safeGetNumberValue env t fid recordId =
     tryCatch
       (bindE (getValue t fid recordId)
          (\<lambda>v. if v = JNull \<or> v = JUndefined then returnE (Num 0)
               else let numValue = toNumber env v
                    in returnE (if isNaN numValue then Num 0 else numValue)))
       (\<lambda>e. bindE (consoleOut LogWarn (GetFieldValueFailed e)) (\<lambda>_. returnE (Num 0)))"

text \<open>
  The body of the loop over the record ids. \<open>new Date(v)\<close> does not throw on the values
  modelled, so the inner \<open>catch\<close> (which would warn and continue) has no branch here.
\<close>

definition recordBody ::
  "jsenv \<Rightarrow> table \<Rightarrow> sourceFieldIds \<Rightarrow> jsnum \<Rightarrow> string \<Rightarrow> (loopVars \<times> world, unit) exn" where
  "recordBody env t ids month recordId =
     bindE (inWorld (getValue t (outDateFieldId ids) recordId)) (\<lambda>outDateValue.
     if \<not> truthy outDateValue then returnE ()
     else
       let outDate = newDate env outDateValue in
       if isNaN outDate
       then inWorld (consoleOut LogWarn (InvalidDateFormat recordId outDateValue))
       else
         let outDateMonth = jsadd (getMonth env outDate) (Num 1) in
         if \<not> strictEq outDateMonth month then returnE ()
         else
           bindE (modifyVars incMatched) (\<lambda>_.
           bindE (inWorld (getValue t (productCategoryFieldId ids) recordId)) (\<lambda>productCategory.
           if \<not> truthy productCategory
           then inWorld (consoleOut LogWarn (NoCategorySkipped recordId))
           else
             let categoryKey = toString env productCategory in
             bindE (modifyVars (initGroup categoryKey)) (\<lambda>_.
             bindE (modifyVars (updateGroup categoryKey (\<lambda>a. a\<lparr>count := count a + 1\<rparr>))) (\<lambda>_.
             bindE (inWorld (safeGetNumberValue env t (sharesFieldId ids) recordId)) (\<lambda>v1.
             bindE (modifyVars (updateGroup categoryKey
                      (\<lambda>a. a\<lparr>shares := jsadd (shares a) v1\<rparr>))) (\<lambda>_.
             bindE (inWorld (safeGetNumberValue env t (preparationFeeFieldId ids) recordId)) (\<lambda>v2.
             bindE (modifyVars (updateGroup categoryKey
                      (\<lambda>a. a\<lparr>preparationFee := jsadd (preparationFee a) v2\<rparr>))) (\<lambda>_.
             bindE (inWorld (safeGetNumberValue env t (rewardDeductionFieldId ids) recordId)) (\<lambda>v3.
             bindE (modifyVars (updateGroup categoryKey
                      (\<lambda>a. a\<lparr>rewardDeduction := jsadd (rewardDeduction a) v3\<rparr>))) (\<lambda>_.
             bindE (inWorld (safeGetNumberValue env t (cancelFeeFieldId ids) recordId)) (\<lambda>v4.
             bindE (modifyVars (updateGroup categoryKey
                      (\<lambda>a. a\<lparr>cancelFee := jsadd (cancelFee a) v4\<rparr>))) (\<lambda>_.
             bindE (inWorld (safeGetNumberValue env t (urgentFeeFieldId ids) recordId)) (\<lambda>v5.
             bindE (modifyVars (updateGroup categoryKey
                      (\<lambda>a. a\<lparr>urgentFee := jsadd (urgentFee a) v5\<rparr>))) (\<lambda>_.
             modifyVars incProcessed)))))))))))))))"

definition processRecord ::
  "jsenv \<Rightarrow> table \<Rightarrow> sourceFieldIds \<Rightarrow> jsnum \<Rightarrow> string \<Rightarrow> (loopVars \<times> world, unit) exn" where
  "processRecord env t ids month recordId =
     tryCatch (recordBody env t ids month recordId)
       (\<lambda>e. inWorld (consoleOut LogWarn (RecordError recordId e)))"

definition sourceFieldIdList :: "sourceFieldIds \<Rightarrow> string list" where
  "sourceFieldIdList ids =
     [productCategoryFieldId ids, outDateFieldId ids, sharesFieldId ids,
      preparationFeeFieldId ids, rewardDeductionFieldId ids, cancelFeeFieldId ids,
      urgentFeeFieldId ids]"

definition getSourceData :: "jsenv \<Rightarrow> table \<Rightarrow> jsnum \<Rightarrow> groups io" where
  "getSourceData env sourceTable month =
     tryCatch
       (bindE (getFieldMetaList sourceTable) (\<lambda>fieldMetas.
        case fieldMetas of
          None \<Rightarrow> throwE (Error NoSourceFields)
        | Some fs \<Rightarrow>
            if fs = [] then throwE (Error NoSourceFields)
            else
              (case resolveSourceFields fs of
                 Inl missingFields \<Rightarrow> throwE (Error (MissingSourceFields missingFields))
               | Inr ids \<Rightarrow>
                   bindE (forOf (getField sourceTable) (sourceFieldIdList ids)) (\<lambda>_.
                   bindE (getRecordIdList sourceTable) (\<lambda>recordIdList.
                   case recordIdList of
                     None \<Rightarrow> throwE (Error NoRecords)
                   | Some rs \<Rightarrow>
                       if rs = [] then throwE (Error NoRecords)
                       else
                         bindE (consoleOut LogInfo (FoundRecords (length rs))) (\<lambda>_.
                         bindE (runVars initialVars
                                  (forOf (processRecord env sourceTable ids month) rs)) (\<lambda>vs.
                         bindE (consoleOut LogInfo
                                  (ProcessingSummary (processedRecordCount vs)
                                     (matchedRecordCount vs) (length (groupedData vs)))) (\<lambda>_.
                         returnE (groupedData vs)))))))))
       (\<lambda>e. bindE (consoleOut LogError (SourceDataError e))
          (\<lambda>_. throwE (rethrow UnknownSourceDataError e)))"

subsection \<open>writeDataToNewTable\<close>

text \<open>
  The bulk path maps every entry of \<open>groupedData\<close> to a row object; the callback first
  tests the seven ids again (an id is falsy when empty) and throws when one is missing.
\<close>

definition fieldIdsIncomplete :: "targetFieldIds \<Rightarrow> bool" where
  "fieldIdsIncomplete ids =
     (projectFieldId ids = [] \<or> personCountFieldId ids = [] \<or> sharesTargetId ids = []
      \<or> preparationFeeTargetId ids = [] \<or> rewardDeductionTargetId ids = []
      \<or> cancelFeeTargetId ids = [] \<or> urgentFeeTargetId ids = [])"

definition countValue :: "accumulator \<Rightarrow> jsval" where
  "countValue d = JNum (Num (of_nat (count d)))"

definition recordOf :: "targetFieldIds \<Rightarrow> string \<times> accumulator \<Rightarrow> row" where
  "recordOf ids entry =
     (case entry of
        (productCategory, d) \<Rightarrow>
          [(projectFieldId ids, JStr productCategory),
           (personCountFieldId ids, countValue d),
           (sharesTargetId ids, JNum (shares d)),
           (preparationFeeTargetId ids, JNum (preparationFee d)),
           (rewardDeductionTargetId ids, JNum (rewardDeduction d)),
           (cancelFeeTargetId ids, JNum (cancelFee d)),
           (urgentFeeTargetId ids, JNum (urgentFee d))])"

definition bulkRecords :: "targetFieldIds \<Rightarrow> groups \<Rightarrow> row list io" where
  "bulkRecords ids data =
     (if data \<noteq> [] \<and> fieldIdsIncomplete ids then throwE (Error IncompleteFieldIds)
      else returnE (map (recordOf ids) data))"

text \<open>
  The inner \<open>try\<close> of the bulk path. Its result tells whether the method returned from
  inside it (after a successful \<open>addRecords\<close>) or goes on to the per-row loop.
\<close>

definition bulkInsert :: "table \<Rightarrow> targetFieldIds \<Rightarrow> groups \<Rightarrow> bool io" where
  "bulkInsert newTable ids data =
     tryCatch
       (bindE (bulkRecords ids data) (\<lambda>records.
        if records \<noteq> []
        then bindE (addRecords newTable records) (\<lambda>_.
             bindE (consoleOut LogInfo (BulkAdded (length records))) (\<lambda>_.
             returnE True))
        else returnE False))
       (\<lambda>e. bindE (consoleOut LogWarn (BulkFailed e)) (\<lambda>_. returnE False))"

text \<open>
  One round of the per-row loop, for the \<open>n\<close>-th entry: the local variable is
  \<open>successCount\<close>.
\<close>

definition writeRow ::
  "table \<Rightarrow> targetFieldIds \<Rightarrow> nat \<times> string \<times> accumulator \<Rightarrow> (nat \<times> world, unit) exn" where
  "writeRow newTable ids indexedEntry =
     (case indexedEntry of
        (n, productCategory, d) \<Rightarrow>
          tryCatch
            (bindE (inWorld (addRecord newTable n)) (\<lambda>recordId.
             bindE (inWorld (setValue newTable (projectFieldId ids) recordId
                      (JStr productCategory))) (\<lambda>_.
             bindE (inWorld (setValue newTable (personCountFieldId ids) recordId
                      (countValue d))) (\<lambda>_.
             bindE (inWorld (setValue newTable (sharesTargetId ids) recordId
                      (JNum (round2 (shares d))))) (\<lambda>_.
             bindE (inWorld (setValue newTable (preparationFeeTargetId ids) recordId
                      (JNum (round2 (preparationFee d))))) (\<lambda>_.
             bindE (inWorld (setValue newTable (rewardDeductionTargetId ids) recordId
                      (JNum (round2 (rewardDeduction d))))) (\<lambda>_.
             bindE (inWorld (setValue newTable (cancelFeeTargetId ids) recordId
                      (JNum (round2 (cancelFee d))))) (\<lambda>_.
             bindE (inWorld (setValue newTable (urgentFeeTargetId ids) recordId
                      (JNum (round2 (urgentFee d))))) (\<lambda>_.
             modifyVars Suc)))))))))
            (\<lambda>e. inWorld (consoleOut LogError (AddRowError productCategory e))))"

definition targetFieldIdList :: "targetFieldIds \<Rightarrow> string list" where
  "targetFieldIdList ids =
     [projectFieldId ids, personCountFieldId ids, sharesTargetId ids,
      preparationFeeTargetId ids, rewardDeductionTargetId ids, cancelFeeTargetId ids,
      urgentFeeTargetId ids]"

text \<open>The statements after the field handles are fetched: both write paths and the verdict.\<close>

definition writeGroups :: "table \<Rightarrow> targetFieldIds \<Rightarrow> groups \<Rightarrow> unit io" where
  "writeGroups newTable ids data =
     bindE (consoleOut LogInfo (StartWriting (length data))) (\<lambda>_.
     bindE (bulkInsert newTable ids data) (\<lambda>returned.
     if returned then returnE ()
     else
       bindE (runVars 0 (forOf (writeRow newTable ids) (List.enumerate 0 data)))
         (\<lambda>successCount.
       bindE (consoleOut LogInfo (AddedSummary successCount (length data))) (\<lambda>_.
       if successCount = 0 then throwE (Error NoRecordWritten)
       else if successCount < length data
       then consoleOut LogWarn (PartialWrite successCount (length data))
       else returnE ()))))"

definition writeDataToNewTable :: "table \<Rightarrow> groups \<Rightarrow> unit io" where
  "writeDataToNewTable newTable data =
     tryCatch
       (bindE (getFieldMetaList newTable) (\<lambda>fieldMetas.
        case fieldMetas of
          None \<Rightarrow> throwE (Error NoTargetFields)
        | Some fs \<Rightarrow>
            if fs = [] then throwE (Error NoTargetFields)
            else
              (case resolveTargetFields fs of
                 Inl missingFields \<Rightarrow> throwE (Error (MissingTargetFields missingFields))
               | Inr ids \<Rightarrow>
                   bindE (forOf (getField newTable) (targetFieldIdList ids)) (\<lambda>_.
                   writeGroups newTable ids data))))
       (\<lambda>e. bindE (consoleOut LogError (WriteError e))
          (\<lambda>_. throwE (rethrow UnknownWriteError e)))"

subsection \<open>generate\<close>

definition newTableName :: "jsenv \<Rightarrow> jsnum \<Rightarrow> tableName" where
  "newTableName env month =
     \<lparr>nameYear = getFullYear env (clockNow env), nameMonth = toString env (JNum month)\<rparr>"

definition generate :: "jsenv \<Rightarrow> base \<Rightarrow> string \<Rightarrow> jsnum \<Rightarrow> unit io" where
  "generate env b sourceTableId month =
     (if sourceTableId = [] then throwE (Error EmptySourceId)
      else if jslt month (Num 1) \<or> jsgt month (Num 12) then throwE (Error MonthOutOfRange)
      else
        tryCatch
          (bindE (getTableById b sourceTableId) (\<lambda>found.
           case found of
             None \<Rightarrow> throwE (Error (TableNotFound sourceTableId))
           | Some sourceTable \<Rightarrow>
               bindE (consoleOut LogInfo (CreatingTable (newTableName env month))) (\<lambda>_.
               bindE (addTable b (newTableName env month)) (\<lambda>newTableResult.
               case newTableResult of
                 None \<Rightarrow> throwE (Error CreateTableFailed)
               | Some None \<Rightarrow> throwE (Error CreateTableFailed)
               | Some (Some newTableId) \<Rightarrow>
                   if newTableId = [] then throwE (Error CreateTableFailed)
                   else
                     bindE (getTableById b newTableId) (\<lambda>created.
                     case created of
                       None \<Rightarrow> throwE (Error (NewTableInaccessible newTableId))
                     | Some newTable \<Rightarrow>
                         bindE (consoleOut LogInfo CreatingFields) (\<lambda>_.
                         bindE (createFields newTable) (\<lambda>_.
                         bindE (consoleOut LogInfo FetchingSourceData) (\<lambda>_.
                         bindE (getSourceData env sourceTable month) (\<lambda>sourceData.
                         if sourceData = [] then throwE (Error (NoDataForMonth month))
                         else
                           bindE (consoleOut LogInfo WritingData) (\<lambda>_.
                           bindE (writeDataToNewTable newTable sourceData) (\<lambda>_.
                           consoleOut LogInfo ReportDone)))))))))))
          (\<lambda>e. bindE (consoleOut LogError (GenerateError e))
             (\<lambda>_. throwE (rethrow UnknownGenerateError e))))"

section \<open>Runs in closed form\<close>

text \<open>
  The definitions of this section serve the statements and proofs below, not the model:
  each lemma of the form \<open>..._run\<close> shows that a method of the model, started in a
  world \<open>w\<close>, ends with the outcome and in the world these definitions describe.
  \<open>emit cs ds w\<close> is the world \<open>w\<close> after the calls \<open>cs\<close> and the console lines
  \<open>ds\<close>.
\<close>

definition emit :: "call list \<Rightarrow> (level \<times> diag) list \<Rightarrow> world \<Rightarrow> world" where
  "emit cs ds w = w\<lparr>calls := calls w @ cs, console := console w @ ds\<rparr>"

text \<open>
  What \<open>safeGetNumberValue\<close> makes of the answer of the host to the read of a cell, and
  what it logs.
\<close>

definition normalize :: "jsenv \<Rightarrow> thrown + jsval \<Rightarrow> jsnum" where
  "normalize env r =
     (case r of
        Inl e \<Rightarrow> Num 0
      | Inr v \<Rightarrow>
          if v = JNull \<or> v = JUndefined \<or> toNumber env v = NaN then Num 0
          else toNumber env v)"

definition readFailure :: "thrown + jsval \<Rightarrow> (level \<times> diag) list" where
  "readFailure r = (case r of Inl e \<Rightarrow> [(LogWarn, GetFieldValueFailed e)] | Inr v \<Rightarrow> [])"

text \<open>
  The tests of the loop body on a record \<open>r\<close>. \<open>dateInMonth\<close>: the out-date value is
  there (truthy: not \<open>null\<close>, \<open>undefined\<close>, \<open>0\<close>, \<open>NaN\<close>, the empty string or
  \<open>false\<close>), it parses to a valid date, and the local month of that date, counted from
  1, is the requested one. \<open>matchesMonth\<close>: the out-date cell can be read and passes
  that test. \<open>hasCategory\<close>: the category cell can be read and holds a value (truthy).
  A record \<open>contributes\<close> when both hold; its group is the one of \<open>categoryKeyOf\<close>, and
  \<open>cell\<close> is what a numeric cell adds to a sum.
\<close>

definition dateInMonth :: "jsenv \<Rightarrow> jsnum \<Rightarrow> jsval \<Rightarrow> bool" where
  "dateInMonth env month v =
     (truthy v \<and> \<not> isNaN (newDate env v)
      \<and> strictEq (jsadd (getMonth env (newDate env v)) (Num 1)) month)"

definition matchesMonth :: "jsenv \<Rightarrow> table \<Rightarrow> sourceFieldIds \<Rightarrow> jsnum \<Rightarrow> string \<Rightarrow> bool" where
  "matchesMonth env t ids month r =
     (case getValueHost t (outDateFieldId ids) r of
        Inl e \<Rightarrow> False
      | Inr v \<Rightarrow> dateInMonth env month v)"

definition hasCategory :: "table \<Rightarrow> sourceFieldIds \<Rightarrow> string \<Rightarrow> bool" where
  "hasCategory t ids r =
     (case getValueHost t (productCategoryFieldId ids) r of
        Inl e \<Rightarrow> False
      | Inr c \<Rightarrow> truthy c)"

definition contributes :: "jsenv \<Rightarrow> table \<Rightarrow> sourceFieldIds \<Rightarrow> jsnum \<Rightarrow> string \<Rightarrow> bool" where
  "contributes env t ids month r = (matchesMonth env t ids month r \<and> hasCategory t ids r)"

definition categoryKeyOf :: "jsenv \<Rightarrow> table \<Rightarrow> sourceFieldIds \<Rightarrow> string \<Rightarrow> string" where
  "categoryKeyOf env t ids r =
     (case getValueHost t (productCategoryFieldId ids) r of
        Inl e \<Rightarrow> []
      | Inr c \<Rightarrow> toString env c)"

definition cell :: "jsenv \<Rightarrow> table \<Rightarrow> string \<Rightarrow> string \<Rightarrow> jsnum" where
  "cell env t fid r = normalize env (getValueHost t fid r)"

text \<open>
  The assignments of the loop body for a contributing record, and for any record; the
  calls and the console lines of one round of the loop.
\<close>

definition addRecordTo ::
  "jsenv \<Rightarrow> table \<Rightarrow> sourceFieldIds \<Rightarrow> string \<Rightarrow> string \<Rightarrow> loopVars \<Rightarrow> loopVars" where
  "addRecordTo env t ids r k vs =
     incProcessed
       (updateGroup k (\<lambda>a. a\<lparr>urgentFee := jsadd (urgentFee a) (cell env t (urgentFeeFieldId ids) r)\<rparr>)
       (updateGroup k (\<lambda>a. a\<lparr>cancelFee := jsadd (cancelFee a) (cell env t (cancelFeeFieldId ids) r)\<rparr>)
       (updateGroup k (\<lambda>a. a\<lparr>rewardDeduction :=
                                 jsadd (rewardDeduction a) (cell env t (rewardDeductionFieldId ids) r)\<rparr>)
       (updateGroup k (\<lambda>a. a\<lparr>preparationFee :=
                                 jsadd (preparationFee a) (cell env t (preparationFeeFieldId ids) r)\<rparr>)
       (updateGroup k (\<lambda>a. a\<lparr>shares := jsadd (shares a) (cell env t (sharesFieldId ids) r)\<rparr>)
       (updateGroup k (\<lambda>a. a\<lparr>count := count a + 1\<rparr>)
       (initGroup k vs)))))))"

definition varsStep ::
  "jsenv \<Rightarrow> table \<Rightarrow> sourceFieldIds \<Rightarrow> jsnum \<Rightarrow> loopVars \<Rightarrow> string \<Rightarrow> loopVars" where
  "varsStep env t ids month vs r =
     (if \<not> matchesMonth env t ids month r then vs
      else if hasCategory t ids r
      then addRecordTo env t ids r (categoryKeyOf env t ids r) (incMatched vs)
      else incMatched vs)"

definition numericFieldIds :: "sourceFieldIds \<Rightarrow> string list" where
  "numericFieldIds ids =
     [sharesFieldId ids, preparationFeeFieldId ids, rewardDeductionFieldId ids,
      cancelFeeFieldId ids, urgentFeeFieldId ids]"

definition recordCalls :: "jsenv \<Rightarrow> table \<Rightarrow> sourceFieldIds \<Rightarrow> jsnum \<Rightarrow> string \<Rightarrow> call list" where
  "recordCalls env t ids month r =
     GetValue (tableId t) (outDateFieldId ids) r #
     (if matchesMonth env t ids month r
      then GetValue (tableId t) (productCategoryFieldId ids) r #
           (if hasCategory t ids r
            then map (\<lambda>fid. GetValue (tableId t) fid r) (numericFieldIds ids)
            else [])
      else [])"

definition recordDiags ::
  "jsenv \<Rightarrow> table \<Rightarrow> sourceFieldIds \<Rightarrow> jsnum \<Rightarrow> string \<Rightarrow> (level \<times> diag) list" where
  "recordDiags env t ids month r =
     (case getValueHost t (outDateFieldId ids) r of
        Inl e \<Rightarrow> [(LogWarn, RecordError r e)]
      | Inr v \<Rightarrow>
          if \<not> truthy v then []
          else if isNaN (newDate env v) then [(LogWarn, InvalidDateFormat r v)]
          else if \<not> dateInMonth env month v then []
          else
            (case getValueHost t (productCategoryFieldId ids) r of
               Inl e \<Rightarrow> [(LogWarn, RecordError r e)]
             | Inr c \<Rightarrow>
                 if \<not> truthy c then [(LogWarn, NoCategorySkipped r)]
                 else concat (map (\<lambda>fid. readFailure (getValueHost t fid r))
                                (numericFieldIds ids))))"

text \<open>
  A source table opens: its field metadata can be read and is not empty, the seven names
  resolve to \<open>ids\<close>, the seven field handles can be fetched, and the list of record ids
  \<open>rs\<close> can be read and is not empty.
\<close>

definition sourceOpens :: "table \<Rightarrow> sourceFieldIds \<Rightarrow> string list \<Rightarrow> bool" where
  "sourceOpens t ids rs =
     (case getFieldMetaListHost t of
        Inr (Some fs) \<Rightarrow>
          fs \<noteq> [] \<and> resolveSourceFields fs = Inr ids
          \<and> list_all (\<lambda>fid. getFieldHost t fid = None) (sourceFieldIdList ids)
          \<and> getRecordIdListHost t = Inr (Some rs) \<and> rs \<noteq> []
      | _ \<Rightarrow> False)"

definition openCalls :: "table \<Rightarrow> sourceFieldIds \<Rightarrow> call list" where
  "openCalls t ids =
     GetFieldMetaList (tableId t) # map (GetField (tableId t)) (sourceFieldIdList ids)
     @ [GetRecordIdList (tableId t)]"

definition finalVars :: "jsenv \<Rightarrow> table \<Rightarrow> sourceFieldIds \<Rightarrow> jsnum \<Rightarrow> string list \<Rightarrow> loopVars" where
  "finalVars env t ids month rs = foldl (varsStep env t ids month) initialVars rs"

text \<open>
  The loop on the groups alone: a contributing record is added to the accumulator of its
  group, which is created first when the record is the first of its category.
  \<open>groupCount\<close> reads the count of a group (0 when there is none), \<open>countTotal\<close> sums
  the counts of all groups.
\<close>

definition addCells :: "jsenv \<Rightarrow> table \<Rightarrow> sourceFieldIds \<Rightarrow> accumulator \<Rightarrow> string \<Rightarrow> accumulator" where
  "addCells env t ids a r =
     a\<lparr>count := count a + 1,
       shares := jsadd (shares a) (cell env t (sharesFieldId ids) r),
       preparationFee := jsadd (preparationFee a) (cell env t (preparationFeeFieldId ids) r),
       rewardDeduction := jsadd (rewardDeduction a) (cell env t (rewardDeductionFieldId ids) r),
       cancelFee := jsadd (cancelFee a) (cell env t (cancelFeeFieldId ids) r),
       urgentFee := jsadd (urgentFee a) (cell env t (urgentFeeFieldId ids) r)\<rparr>"

definition groupStep :: "jsenv \<Rightarrow> table \<Rightarrow> sourceFieldIds \<Rightarrow> jsnum \<Rightarrow> groups \<Rightarrow> string \<Rightarrow> groups" where
  "groupStep env t ids month g r =
     (if contributes env t ids month r
      then AList.map_entry (categoryKeyOf env t ids r) (\<lambda>a. addCells env t ids a r)
             (if map_of g (categoryKeyOf env t ids r) = None
              then g @ [(categoryKeyOf env t ids r, zeroAccumulator)] else g)
      else g)"

definition groupCount :: "groups \<Rightarrow> string \<Rightarrow> nat" where
  "groupCount g k = (case map_of g k of None \<Rightarrow> 0 | Some a \<Rightarrow> count a)"







subsection \<open>Field resolution\<close>

text \<open>
  The display names of the seven source roles and of the seven target roles, in the order
  of the id lists \<open>sourceFieldIdList\<close> and \<open>targetFieldIdList\<close>. An id is the first
  match of a name when it is the id of a field of exactly that name which no field of
  that name precedes in the listing; a name is not located when no field bears it.
\<close>

definition firstMatch :: "fieldmeta list \<Rightarrow> string \<Rightarrow> string \<Rightarrow> bool" where
  "firstMatch fieldMetas nm i =
     (\<exists>p\<in>{..<length fieldMetas}.
        fieldName (fieldMetas ! p) = nm \<and> fieldId (fieldMetas ! p) = i
        \<and> (\<forall>q\<in>{..<p}. fieldName (fieldMetas ! q) \<noteq> nm))"

definition sourceNames :: "string list" where
  "sourceNames =
     [SOURCE_PRODUCT_CATEGORY, SOURCE_OUT_DATE, SOURCE_SHARES, SOURCE_PREPARATION_FEE,
      SOURCE_REWARD_DEDUCTION, SOURCE_CANCEL_FEE, SOURCE_URGENT_FEE]"

definition targetNames :: "string list" where
  "targetNames =
     [TARGET_PROJECT, TARGET_PERSON_COUNT, TARGET_SHARES, TARGET_PREPARATION_FEE,
      TARGET_REWARD_DEDUCTION, TARGET_CANCEL_FEE, TARGET_URGENT_FEE]"

definition missingNames :: "fieldmeta list \<Rightarrow> string list \<Rightarrow> string list" where
  "missingNames fieldMetas names = filter (\<lambda>nm. idMissing (findFieldId fieldMetas nm)) names"

definition notLocated :: "fieldmeta list \<Rightarrow> string \<Rightarrow> bool" where
  "notLocated fieldMetas nm = (nm \<notin> fieldName ` set fieldMetas)"

subsection \<open>What a run of the writer does\<close>

text \<open>
  The values of the per-row path in the order they are set; the calls of one round of the
  per-row loop and the exception that ended it, if any; the rows of the bulk path.
\<close>

definition rowValues :: "targetFieldIds \<Rightarrow> string \<times> accumulator \<Rightarrow> (string \<times> jsval) list" where
  "rowValues ids entry =
     (case entry of
        (productCategory, d) \<Rightarrow>
          [(projectFieldId ids, JStr productCategory),
           (personCountFieldId ids, countValue d),
           (sharesTargetId ids, JNum (round2 (shares d))),
           (preparationFeeTargetId ids, JNum (round2 (preparationFee d))),
           (rewardDeductionTargetId ids, JNum (round2 (rewardDeduction d))),
           (cancelFeeTargetId ids, JNum (round2 (cancelFee d))),
           (urgentFeeTargetId ids, JNum (round2 (urgentFee d)))])"

fun setAll :: "table \<Rightarrow> string \<Rightarrow> (string \<times> jsval) list \<Rightarrow> call list \<times> thrown option" where
  "setAll t recordId [] = ([], None)"
| "setAll t recordId (fv # rest) =
     (case setValueHost t (fst fv) recordId (snd fv) of
        Some e \<Rightarrow> ([SetValue (tableId t) (fst fv) recordId (snd fv)], Some e)
      | None \<Rightarrow>
          (SetValue (tableId t) (fst fv) recordId (snd fv) # fst (setAll t recordId rest),
           snd (setAll t recordId rest)))"

definition rowOutcome ::
  "table \<Rightarrow> targetFieldIds \<Rightarrow> nat \<times> string \<times> accumulator \<Rightarrow> call list \<times> thrown option" where
  "rowOutcome t ids ie =
     (case addRecordHost t (fst ie) of
        Inl e \<Rightarrow> ([AddRecord (tableId t)], Some e)
      | Inr recordId \<Rightarrow>
          (AddRecord (tableId t) # fst (setAll t recordId (rowValues ids (snd ie))),
           snd (setAll t recordId (rowValues ids (snd ie)))))"

definition rowSucceeds :: "table \<Rightarrow> targetFieldIds \<Rightarrow> nat \<times> string \<times> accumulator \<Rightarrow> bool" where
  "rowSucceeds t ids ie = (snd (rowOutcome t ids ie) = None)"

definition rowDiags ::
  "table \<Rightarrow> targetFieldIds \<Rightarrow> nat \<times> string \<times> accumulator \<Rightarrow> (level \<times> diag) list" where
  "rowDiags t ids ie =
     (case snd (rowOutcome t ids ie) of
        None \<Rightarrow> []
      | Some e \<Rightarrow> [(LogError, AddRowError (fst (snd ie)) e)])"

definition bulkSucceeds :: "table \<Rightarrow> targetFieldIds \<Rightarrow> groups \<Rightarrow> bool" where
  "bulkSucceeds t ids data =
     (data \<noteq> [] \<and> \<not> fieldIdsIncomplete ids
      \<and> addRecordsHost t (map (recordOf ids) data) = None)"

definition bulkCalls :: "table \<Rightarrow> targetFieldIds \<Rightarrow> groups \<Rightarrow> call list" where
  "bulkCalls t ids data =
     (if data \<noteq> [] \<and> \<not> fieldIdsIncomplete ids
      then [AddRecords (tableId t) (map (recordOf ids) data)] else [])"

definition bulkDiags :: "table \<Rightarrow> targetFieldIds \<Rightarrow> groups \<Rightarrow> (level \<times> diag) list" where
  "bulkDiags t ids data =
     (if data = [] then []
      else if fieldIdsIncomplete ids then [(LogWarn, BulkFailed (Error IncompleteFieldIds))]
      else (case addRecordsHost t (map (recordOf ids) data) of
              None \<Rightarrow> [(LogInfo, BulkAdded (length data))]
            | Some e \<Rightarrow> [(LogWarn, BulkFailed e)]))"

definition successCount :: "table \<Rightarrow> targetFieldIds \<Rightarrow> groups \<Rightarrow> nat" where
  "successCount t ids data = length (filter (rowSucceeds t ids) (List.enumerate 0 data))"

definition rowsCalls :: "table \<Rightarrow> targetFieldIds \<Rightarrow> groups \<Rightarrow> call list" where
  "rowsCalls t ids data = concat (map (\<lambda>ie. fst (rowOutcome t ids ie)) (List.enumerate 0 data))"

definition rowsDiags :: "table \<Rightarrow> targetFieldIds \<Rightarrow> groups \<Rightarrow> (level \<times> diag) list" where
  "rowsDiags t ids data = concat (map (rowDiags t ids) (List.enumerate 0 data))"

definition verdictDiags :: "nat \<Rightarrow> nat \<Rightarrow> (level \<times> diag) list" where
  "verdictDiags sc n =
     (LogInfo, AddedSummary sc n) #
     (if 0 < sc \<and> sc < n then [(LogWarn, PartialWrite sc n)] else [])"

definition targetOpens :: "table \<Rightarrow> targetFieldIds \<Rightarrow> bool" where
  "targetOpens t ids =
     (case getFieldMetaListHost t of
        Inr (Some fs) \<Rightarrow>
          fs \<noteq> [] \<and> resolveTargetFields fs = Inr ids
          \<and> list_all (\<lambda>fid. getFieldHost t fid = None) (targetFieldIdList ids)
      | _ \<Rightarrow> False)"

definition targetOpenCalls :: "table \<Rightarrow> targetFieldIds \<Rightarrow> call list" where
  "targetOpenCalls t ids =
     GetFieldMetaList (tableId t) # map (GetField (tableId t)) (targetFieldIdList ids)"

text \<open>The calls made on the host between a world and a later one.\<close>

definition newCalls :: "world \<Rightarrow> world \<Rightarrow> call list" where
  "newCalls w w' = drop (length (calls w)) (calls w')"

subsection \<open>What a run of generate does\<close>

text \<open>
  The steps of \<open>generate\<close> before the aggregation succeed: the arguments pass the two
  checks, the source table is found, the report table is created and found, and its seven
  fields are added. \<open>sourceFieldsOpen\<close>: the field metadata of the source table can be
  read, resolves to the ids, and the seven field handles can be fetched.
\<close>

definition reportOpens :: "jsenv \<Rightarrow> base \<Rightarrow> string \<Rightarrow> jsnum \<Rightarrow> table \<Rightarrow> table \<Rightarrow> bool" where
  "reportOpens env b sourceTableId month sourceTable newTable =
     (sourceTableId \<noteq> [] \<and> \<not> jslt month (Num 1) \<and> \<not> jsgt month (Num 12)
      \<and> getTableByIdHost b sourceTableId = Inr (Some sourceTable)
      \<and> (case addTableHost b (newTableName env month) of
            Inr (Some (Some newTableId)) \<Rightarrow>
              newTableId \<noteq> [] \<and> getTableByIdHost b newTableId = Inr (Some newTable)
          | _ \<Rightarrow> False)
      \<and> list_all (\<lambda>c. addFieldHost newTable c = None) targetFieldConfigs)"

definition createdTableId :: "jsenv \<Rightarrow> base \<Rightarrow> jsnum \<Rightarrow> string" where
  "createdTableId env b month =
     (case addTableHost b (newTableName env month) of
        Inr (Some (Some newTableId)) \<Rightarrow> newTableId
      | _ \<Rightarrow> [])"

definition prepareCalls :: "jsenv \<Rightarrow> base \<Rightarrow> string \<Rightarrow> jsnum \<Rightarrow> table \<Rightarrow> call list" where
  "prepareCalls env b sourceTableId month newTable =
     [GetTableById sourceTableId, AddTable (newTableName env month),
      GetTableById (createdTableId env b month)]
     @ map (AddField (tableId newTable)) targetFieldConfigs"

definition prepareDiags :: "jsenv \<Rightarrow> jsnum \<Rightarrow> (level \<times> diag) list" where
  "prepareDiags env month =
     [(LogInfo, CreatingTable (newTableName env month)), (LogInfo, CreatingFields),
      (LogInfo, FetchingSourceData)]"

definition sourceFieldsOpen :: "table \<Rightarrow> sourceFieldIds \<Rightarrow> bool" where
  "sourceFieldsOpen t ids =
     (case getFieldMetaListHost t of
        Inr (Some fs) \<Rightarrow>
          fs \<noteq> [] \<and> resolveSourceFields fs = Inr ids
          \<and> list_all (\<lambda>fid. getFieldHost t fid = None) (sourceFieldIdList ids)
      | _ \<Rightarrow> False)"

definition noRecordIds :: "table \<Rightarrow> bool" where
  "noRecordIds t =
     (getRecordIdListHost t = Inr None \<or> getRecordIdListHost t = Inr (Some []))"

text \<open>The calls that write a group, and the calls that read a cell.\<close>

fun isWrite :: "call \<Rightarrow> bool" where
  "isWrite (AddRecords tid records) = True"
| "isWrite (AddRecord tid) = True"
| "isWrite (SetValue tid fid recordId v) = True"
| "isWrite c = False"

fun isCellRead :: "call \<Rightarrow> bool" where
  "isCellRead (GetValue tid fid recordId) = True"
| "isCellRead c = False"

text \<open>
  The out-date cell of a record holds a value that does not parse to a valid date.
\<close>

definition badDate :: "jsenv \<Rightarrow> table \<Rightarrow> sourceFieldIds \<Rightarrow> string \<Rightarrow> bool" where
  "badDate env t ids r =
     (case getValueHost t (outDateFieldId ids) r of
        Inl e \<Rightarrow> False
      | Inr v \<Rightarrow> truthy v \<and> isNaN (newDate env v))"

definition dateValue :: "table \<Rightarrow> sourceFieldIds \<Rightarrow> string \<Rightarrow> jsval" where
  "dateValue t ids r =
     (case getValueHost t (outDateFieldId ids) r of Inl e \<Rightarrow> JUndefined | Inr v \<Rightarrow> v)"



section \<open>Example tables\<close>

text \<open>
  A source table given by its cells, whose every call succeeds; a cell that is not listed
  is empty (\<open>null\<close>). The example engine runs in UTC and is asked for no numeric
  string and no date string it could read.
\<close>

definition utcEnv :: jsenv where
  "utcEnv =
     \<lparr>stringToNumber = (\<lambda>s. NaN), numberToString = (\<lambda>q. ''n''), dateParse = (\<lambda>s. NaN),
      localTZA = (\<lambda>t. 0), clockNow = 1707998400000\<rparr>"

definition emptyWorld :: world where
  "emptyWorld = \<lparr>calls = [], console = []\<rparr>"

definition februaryFields :: "fieldmeta list" where
  "februaryFields =
     [\<lparr>fieldId = ''fldCategory'', fieldName = SOURCE_PRODUCT_CATEGORY\<rparr>,
      \<lparr>fieldId = ''fldDate'', fieldName = SOURCE_OUT_DATE\<rparr>,
      \<lparr>fieldId = ''fldShares'', fieldName = SOURCE_SHARES\<rparr>,
      \<lparr>fieldId = ''fldFee'', fieldName = SOURCE_PREPARATION_FEE\<rparr>,
      \<lparr>fieldId = ''fldReward'', fieldName = SOURCE_REWARD_DEDUCTION\<rparr>,
      \<lparr>fieldId = ''fldCancel'', fieldName = SOURCE_CANCEL_FEE\<rparr>,
      \<lparr>fieldId = ''fldUrgent'', fieldName = SOURCE_URGENT_FEE\<rparr>]"

definition februaryIds :: sourceFieldIds where
  "februaryIds =
     \<lparr>productCategoryFieldId = ''fldCategory'', outDateFieldId = ''fldDate'',
      sharesFieldId = ''fldShares'', preparationFeeFieldId = ''fldFee'',
      rewardDeductionFieldId = ''fldReward'', cancelFeeFieldId = ''fldCancel'',
      urgentFeeFieldId = ''fldUrgent''\<rparr>"

definition februaryRecords :: "string list" where
  "februaryRecords = [''r1'', ''r2'', ''r3'', ''r4'', ''r5'', ''r6'']"

definition februaryCells :: "((string \<times> string) \<times> jsval) list" where
  "februaryCells =
     [((''fldDate'', ''r1''), JNum (Num 1676462400000)),
      ((''fldCategory'', ''r1''), JStr ''A''),
      ((''fldShares'', ''r1''), JNum (Num (3 / 2))),
      ((''fldFee'', ''r1''), JNum (Num (10001 / 1000))),
      ((''fldDate'', ''r2''), JNum (Num 1707998400000)),
      ((''fldCategory'', ''r2''), JStr ''A''),
      ((''fldShares'', ''r2''), JNum (Num (9 / 4))),
      ((''fldDate'', ''r3''), JNum (Num 1709208000000)),
      ((''fldCategory'', ''r3''), JStr ''B''),
      ((''fldShares'', ''r3''), JNum (Num 3)),
      ((''fldFee'', ''r3''), JNum (Num 5)),
      ((''fldDate'', ''r4''), JStr ''soon''),
      ((''fldCategory'', ''r4''), JStr ''A''),
      ((''fldDate'', ''r5''), JNum (Num 1709294400000)),
      ((''fldCategory'', ''r5''), JStr ''A''),
      ((''fldDate'', ''r6''), JNum (Num 1707998400000))]"

definition cellsTable :: "string \<Rightarrow> fieldmeta list \<Rightarrow> string list \<Rightarrow> ((string \<times> string) \<times> jsval) list \<Rightarrow> table" where
  "cellsTable tid fs rs cells =
     \<lparr>tableId = tid,
      getFieldMetaListHost = Inr (Some fs),
      getFieldHost = (\<lambda>fid. None),
      getRecordIdListHost = Inr (Some rs),
      getValueHost = (\<lambda>fid r. case map_of cells (fid, r) of None \<Rightarrow> Inr JNull | Some v \<Rightarrow> Inr v),
      addFieldHost = (\<lambda>c. None),
      addRecordsHost = (\<lambda>records. None),
      addRecordHost = (\<lambda>n. Inr (replicate (Suc n) (CHR ''r''))),
      setValueHost = (\<lambda>fid r v. None)\<rparr>"

definition februaryTable :: table where
  "februaryTable = cellsTable ''tblSource'' februaryFields februaryRecords februaryCells"

text \<open>
  A base that knows the February table, creates the report table on request and hands it
  out; the report table has the seven target fields and accepts every write.
\<close>

definition reportFields :: "fieldmeta list" where
  "reportFields =
     [\<lparr>fieldId = ''fldProject'', fieldName = TARGET_PROJECT\<rparr>,
      \<lparr>fieldId = ''fldPersons'', fieldName = TARGET_PERSON_COUNT\<rparr>,
      \<lparr>fieldId = ''fldShares'', fieldName = TARGET_SHARES\<rparr>,
      \<lparr>fieldId = ''fldFee'', fieldName = TARGET_PREPARATION_FEE\<rparr>,
      \<lparr>fieldId = ''fldReward'', fieldName = TARGET_REWARD_DEDUCTION\<rparr>,
      \<lparr>fieldId = ''fldCancel'', fieldName = TARGET_CANCEL_FEE\<rparr>,
      \<lparr>fieldId = ''fldUrgent'', fieldName = TARGET_URGENT_FEE\<rparr>]"

definition reportIds :: targetFieldIds where
  "reportIds =
     \<lparr>projectFieldId = ''fldProject'', personCountFieldId = ''fldPersons'',
      sharesTargetId = ''fldShares'', preparationFeeTargetId = ''fldFee'',
      rewardDeductionTargetId = ''fldReward'', cancelFeeTargetId = ''fldCancel'',
      urgentFeeTargetId = ''fldUrgent''\<rparr>"

definition reportTable :: table where
  "reportTable = cellsTable ''tblReport'' reportFields [] []"

definition exampleBase :: "table \<Rightarrow> table \<Rightarrow> base" where
  "exampleBase source report =
     \<lparr>getTableByIdHost =
        (\<lambda>tid. if tid = ''tblSource'' then Inr (Some source)
               else if tid = ''tblReport'' then Inr (Some report)
               else Inr None),
      addTableHost = (\<lambda>nm. Inr (Some (Some ''tblReport'')))\<rparr>"



text \<open>
  A listing in which an older field of the shares name precedes the seven fields, and a
  listing that lacks five of the names.
\<close>

definition duplicateFields :: "fieldmeta list" where
  "duplicateFields = \<lparr>fieldId = ''fldOld'', fieldName = SOURCE_SHARES\<rparr> # februaryFields"


definition noBulkTable :: table where
  "noBulkTable = reportTable\<lparr>addRecordsHost := (\<lambda>records. Some (Error (HostFailure ''bulk'')))\<rparr>"


text \<open>A single group whose sums have more than two decimals.\<close>

definition eighthGroups :: groups where
  "eighthGroups =
     [(''A'', \<lparr>count = 1, shares = Num (1 / 8), preparationFee = Num (12345 / 1000),
               rewardDeduction = Num 0, cancelFee = Num 0, urgentFee = Num 0\<rparr>)]"

text \<open>
  A source table with the seven fields and no record, and one with no record that also
  lacks the urgent-fee field.
\<close>

definition emptyTable :: table where
  "emptyTable = cellsTable ''tblSource'' februaryFields [] []"

definition sixFieldTable :: table where
  "sixFieldTable = cellsTable ''tblSource'' (take 6 februaryFields) [] []"

section \<open>Properties of the sequencing operators\<close>

lemma emit_emit [simp]: "emit cs ds (emit cs' ds' w) = emit (cs' @ cs) (ds' @ ds) w"
  by (simp add: emit_def)

lemma emit_nil [simp]: "emit [] [] w = w"
  by (simp add: emit_def)

lemma calls_emit [simp]: "calls (emit cs ds w) = calls w @ cs"
  by (simp add: emit_def)

lemma console_emit [simp]: "console (emit cs ds w) = console w @ ds"
  by (simp add: emit_def)

lemma returnE_apply [simp]: "returnE x s = (Inr x, s)"
  by (simp add: returnE_def)

lemma throwE_apply [simp]: "throwE e s = (Inl e, s)"
  by (simp add: throwE_def)

lemma bindE_Inr: "m s = (Inr x, s') \<Longrightarrow> bindE m f s = f x s'"
  by (simp add: bindE_def)

lemma bindE_Inl: "m s = (Inl e, s') \<Longrightarrow> bindE m f s = (Inl e, s')"
  by (simp add: bindE_def)

lemma tryCatch_Inr: "m s = (Inr x, s') \<Longrightarrow> tryCatch m h s = (Inr x, s')"
  by (simp add: tryCatch_def)

lemma tryCatch_Inl: "m s = (Inl e, s') \<Longrightarrow> tryCatch m h s = h e s'"
  by (simp add: tryCatch_def)

lemma consoleOut_apply [simp]: "consoleOut l d w = (Inr (), emit [] [(l, d)] w)"
  by (simp add: consoleOut_def emit_def)

lemma hostCall_apply [simp]: "hostCall c r w = (r, emit [c] [] w)"
  by (simp add: hostCall_def emit_def)

lemma inWorld_apply [simp]: "inWorld m (v, w) = (fst (m w), (v, snd (m w)))"
  by (simp add: inWorld_def split: prod.splits)

lemma modifyVars_apply [simp]: "modifyVars f (v, w) = (Inr (), (f v, w))"
  by (simp add: modifyVars_def)

section \<open>The aggregation\<close>

lemma safeGetNumberValue_run:
  "safeGetNumberValue env t fid recordId w =
     (Inr (normalize env (getValueHost t fid recordId)),
      emit [GetValue (tableId t) fid recordId] (readFailure (getValueHost t fid recordId)) w)"
  by (cases "getValueHost t fid recordId")
     (simp_all add: safeGetNumberValue_def tryCatch_def bindE_def getValue_def normalize_def
        readFailure_def isNaN_def Let_def)

lemma processRecord_run:
  "processRecord env t ids month r (vs, w) =
     (Inr (), (varsStep env t ids month vs r,
               emit (recordCalls env t ids month r) (recordDiags env t ids month r) w))"
proof (cases "getValueHost t (outDateFieldId ids) r")
  case (Inl e)
  then show ?thesis
    by (simp add: processRecord_def recordBody_def tryCatch_def bindE_def getValue_def
        varsStep_def recordCalls_def recordDiags_def matchesMonth_def)
next
  case (Inr v)
  show ?thesis
  proof (cases "dateInMonth env month v")
    case False
    with Inr show ?thesis
      by (auto simp add: processRecord_def recordBody_def tryCatch_def bindE_def getValue_def
          varsStep_def recordCalls_def recordDiags_def matchesMonth_def dateInMonth_def Let_def)
  next
    case True
    note dm = True
    show ?thesis
    proof (cases "getValueHost t (productCategoryFieldId ids) r")
      case (Inl e)
      with Inr dm show ?thesis
        by (simp add: processRecord_def recordBody_def tryCatch_def bindE_def getValue_def
            varsStep_def recordCalls_def recordDiags_def matchesMonth_def dateInMonth_def
            hasCategory_def Let_def)
    next
      case c: (Inr c)
      show ?thesis
      proof (cases "truthy c")
        case False
        with Inr dm c show ?thesis
          by (simp add: processRecord_def recordBody_def tryCatch_def bindE_def getValue_def
              varsStep_def recordCalls_def recordDiags_def matchesMonth_def dateInMonth_def
              hasCategory_def Let_def)
      next
        case True
        with Inr dm c show ?thesis
          by (simp add: processRecord_def recordBody_def tryCatch_def bindE_def getValue_def
              varsStep_def recordCalls_def recordDiags_def matchesMonth_def dateInMonth_def
              hasCategory_def Let_def safeGetNumberValue_run addRecordTo_def categoryKeyOf_def
              cell_def numericFieldIds_def)
      qed
    qed
  qed
qed

lemma forOf_processRecord:
  "forOf (processRecord env t ids month) rs (vs, w) =
     (Inr (), (foldl (varsStep env t ids month) vs rs,
               emit (concat (map (recordCalls env t ids month) rs))
                    (concat (map (recordDiags env t ids month) rs)) w))"
  by (induction rs arbitrary: vs w) (simp_all add: bindE_def processRecord_run)

lemma forOf_getField:
  "list_all (\<lambda>fid. getFieldHost t fid = None) fids \<Longrightarrow>
   forOf (getField t) fids w = (Inr (), emit (map (GetField (tableId t)) fids) [] w)"
  by (induction fids arbitrary: w) (simp_all add: bindE_def getField_def unitResult_def)

lemma getField_apply:
  "getField t fid w = (unitResult (getFieldHost t fid), emit [GetField (tableId t) fid] [] w)"
  by (simp add: getField_def)

lemma forOf_getField_Inr:
  "fst (forOf (getField t) fids w) = Inr u \<Longrightarrow>
   list_all (\<lambda>fid. getFieldHost t fid = None) fids"
proof (induction fids arbitrary: w)
  case Nil
  show ?case by simp
next
  case (Cons fid fids)
  let ?w1 = "emit [GetField (tableId t) fid] [] w"
  from Cons.prems
  have p: "fst (bindE (getField t fid) (\<lambda>_. forOf (getField t) fids) w) = Inr u"
    by (simp only: forOf.simps)
  show ?case
  proof (cases "getFieldHost t fid")
    case None
    then have "getField t fid w = (Inr (), ?w1)"
      by (simp add: getField_apply unitResult_def)
    from bindE_Inr [of "getField t fid" w "()" ?w1 "\<lambda>_. forOf (getField t) fids", OF this] p
    have "fst (forOf (getField t) fids ?w1) = Inr u"
      by (simp only:)
    from Cons.IH [OF this] None show ?thesis by simp
  next
    case (Some e)
    then have "getField t fid w = (Inl e, ?w1)"
      by (simp add: getField_apply unitResult_def)
    from bindE_Inl [of "getField t fid" w e ?w1 "\<lambda>_. forOf (getField t) fids", OF this] p
    show ?thesis
      by (simp only: fst_conv sum.distinct)
  qed
qed

lemma runVars_apply:
  "m (v0, w) = (Inr x, (v, w')) \<Longrightarrow> runVars v0 m w = (Inr v, w')"
  by (simp add: runVars_def)

lemma getSourceData_run:
  assumes "sourceOpens t ids rs"
  shows "getSourceData env t month w =
     (Inr (groupedData (finalVars env t ids month rs)),
      emit (openCalls t ids @ concat (map (recordCalls env t ids month) rs))
        ((LogInfo, FoundRecords (length rs)) #
         concat (map (recordDiags env t ids month) rs) @
         [(LogInfo, ProcessingSummary (processedRecordCount (finalVars env t ids month rs))
             (matchedRecordCount (finalVars env t ids month rs))
             (length (groupedData (finalVars env t ids month rs))))]) w)"
proof -
  from assms obtain fs where fs: "getFieldMetaListHost t = Inr (Some fs)" "fs \<noteq> []"
    "resolveSourceFields fs = Inr ids"
    "list_all (\<lambda>fid. getFieldHost t fid = None) (sourceFieldIdList ids)"
    "getRecordIdListHost t = Inr (Some rs)" "rs \<noteq> []"
    by (auto simp add: sourceOpens_def split: sum.splits option.splits)
  show ?thesis
    unfolding getSourceData_def
    by (simp add: tryCatch_def bindE_def getFieldMetaList_def getRecordIdList_def fs
        forOf_getField [OF fs(4)] runVars_def forOf_processRecord finalVars_def openCalls_def)
qed

lemma map_entry_twice:
  "AList.map_entry k f (AList.map_entry k h xs) = AList.map_entry k (\<lambda>a. f (h a)) xs"
  by (induction xs) auto

lemma groupedData_varsStep:
  "groupedData (varsStep env t ids month vs r) = groupStep env t ids month (groupedData vs) r"
  by (simp add: varsStep_def groupStep_def contributes_def addRecordTo_def incProcessed_def
      incMatched_def updateGroup_def initGroup_def map_entry_twice addCells_def)

lemma groupedData_foldl:
  "groupedData (foldl (varsStep env t ids month) vs rs) =
     foldl (groupStep env t ids month) (groupedData vs) rs"
  by (induction rs arbitrary: vs) (simp_all add: groupedData_varsStep)







lemma groupedData_finalVars:
  "groupedData (finalVars env t ids month rs) = foldl (groupStep env t ids month) [] rs"
  by (simp add: finalVars_def groupedData_foldl initialVars_def)

lemma getSourceData_groups:
  "sourceOpens t ids rs \<Longrightarrow>
   fst (getSourceData env t month w) = Inr (foldl (groupStep env t ids month) [] rs)"
  by (simp add: getSourceData_run groupedData_finalVars)

subsection \<open>Sums of finite cells are finite\<close>

lemma normalize_not_NaN: "normalize env r \<noteq> NaN"
  by (simp add: normalize_def split: sum.splits)








section \<open>Field resolution\<close>

lemma findFieldId_firstMatch:
  assumes "\<not> idMissing (findFieldId fs nm)"
  shows "firstMatch fs nm (assertId (findFieldId fs nm))"
proof -
  from assms obtain x where x: "find (\<lambda>field. fieldName field = nm) fs = Some x"
    by (cases "find (\<lambda>field. fieldName field = nm) fs")
       (simp_all add: findFieldId_def idMissing_def)
  then obtain p where "p < length fs" "fieldName (fs ! p) = nm" "x = fs ! p"
    "\<forall>q<p. fieldName (fs ! q) \<noteq> nm"
    by (auto simp add: find_Some_iff)
  with x show ?thesis
    by (auto simp add: firstMatch_def findFieldId_def assertId_def)
qed

lemma notLocated_idMissing:
  assumes "notLocated fs nm"
  shows "idMissing (findFieldId fs nm)"
proof -
  from assms have "find (\<lambda>field. fieldName field = nm) fs = None"
    by (auto simp add: notLocated_def find_None_iff)
  then show ?thesis by (simp add: findFieldId_def idMissing_def)
qed

lemma push_foldl:
  "foldl (\<lambda>ms nm. pushIfMissing (findFieldId fs nm) nm ms) acc names =
     acc @ missingNames fs names"
  by (induction names arbitrary: acc) (simp_all add: pushIfMissing_def missingNames_def)

lemma resolveSourceFields_missing:
  "resolveSourceFields fs =
     (if missingNames fs sourceNames \<noteq> [] then Inl (missingNames fs sourceNames)
      else Inr \<lparr>productCategoryFieldId = assertId (findFieldId fs SOURCE_PRODUCT_CATEGORY),
               outDateFieldId = assertId (findFieldId fs SOURCE_OUT_DATE),
               sharesFieldId = assertId (findFieldId fs SOURCE_SHARES),
               preparationFeeFieldId = assertId (findFieldId fs SOURCE_PREPARATION_FEE),
               rewardDeductionFieldId = assertId (findFieldId fs SOURCE_REWARD_DEDUCTION),
               cancelFeeFieldId = assertId (findFieldId fs SOURCE_CANCEL_FEE),
               urgentFeeFieldId = assertId (findFieldId fs SOURCE_URGENT_FEE)\<rparr>)"
proof -
  have "missingNames fs sourceNames =
      foldl (\<lambda>ms nm. pushIfMissing (findFieldId fs nm) nm ms) [] sourceNames"
    by (simp only: push_foldl append_Nil)
  also have "\<dots> =
      pushIfMissing (findFieldId fs SOURCE_URGENT_FEE) SOURCE_URGENT_FEE
       (pushIfMissing (findFieldId fs SOURCE_CANCEL_FEE) SOURCE_CANCEL_FEE
         (pushIfMissing (findFieldId fs SOURCE_REWARD_DEDUCTION) SOURCE_REWARD_DEDUCTION
           (pushIfMissing (findFieldId fs SOURCE_PREPARATION_FEE) SOURCE_PREPARATION_FEE
             (pushIfMissing (findFieldId fs SOURCE_SHARES) SOURCE_SHARES
               (pushIfMissing (findFieldId fs SOURCE_OUT_DATE) SOURCE_OUT_DATE
                 (pushIfMissing (findFieldId fs SOURCE_PRODUCT_CATEGORY)
                    SOURCE_PRODUCT_CATEGORY []))))))"
    by (simp only: sourceNames_def foldl.simps)
  finally show ?thesis
    by (simp only: resolveSourceFields_def Let_def)
qed

lemma resolveTargetFields_missing:
  "resolveTargetFields fs =
     (if missingNames fs targetNames \<noteq> [] then Inl (missingNames fs targetNames)
      else Inr \<lparr>projectFieldId = assertId (findFieldId fs TARGET_PROJECT),
               personCountFieldId = assertId (findFieldId fs TARGET_PERSON_COUNT),
               sharesTargetId = assertId (findFieldId fs TARGET_SHARES),
               preparationFeeTargetId = assertId (findFieldId fs TARGET_PREPARATION_FEE),
               rewardDeductionTargetId = assertId (findFieldId fs TARGET_REWARD_DEDUCTION),
               cancelFeeTargetId = assertId (findFieldId fs TARGET_CANCEL_FEE),
               urgentFeeTargetId = assertId (findFieldId fs TARGET_URGENT_FEE)\<rparr>)"
proof -
  have "missingNames fs targetNames =
      foldl (\<lambda>ms nm. pushIfMissing (findFieldId fs nm) nm ms) [] targetNames"
    by (simp only: push_foldl append_Nil)
  also have "\<dots> =
      pushIfMissing (findFieldId fs TARGET_URGENT_FEE) TARGET_URGENT_FEE
       (pushIfMissing (findFieldId fs TARGET_CANCEL_FEE) TARGET_CANCEL_FEE
         (pushIfMissing (findFieldId fs TARGET_REWARD_DEDUCTION) TARGET_REWARD_DEDUCTION
           (pushIfMissing (findFieldId fs TARGET_PREPARATION_FEE) TARGET_PREPARATION_FEE
             (pushIfMissing (findFieldId fs TARGET_SHARES) TARGET_SHARES
               (pushIfMissing (findFieldId fs TARGET_PERSON_COUNT) TARGET_PERSON_COUNT
                 (pushIfMissing (findFieldId fs TARGET_PROJECT) TARGET_PROJECT []))))))"
    by (simp only: targetNames_def foldl.simps)
  finally show ?thesis
    by (simp only: resolveTargetFields_def Let_def)
qed

lemma idMissing_notLocated:
  assumes "\<forall>f\<in>set fs. fieldId f \<noteq> []"
  shows "idMissing (findFieldId fs nm) = notLocated fs nm"
proof (cases "find (\<lambda>field. fieldName field = nm) fs")
  case None
  then have "notLocated fs nm"
    by (auto simp add: notLocated_def find_None_iff)
  with None show ?thesis
    by (simp add: findFieldId_def idMissing_def)
next
  case (Some x)
  then have x: "x \<in> set fs" "fieldName x = nm"
    by (auto simp add: find_Some_iff)
  then have "\<not> notLocated fs nm"
    by (auto simp add: notLocated_def)
  with Some assms x show ?thesis
    by (simp add: findFieldId_def idMissing_def)
qed

lemma missingNames_props:
  "(\<forall>nm\<in>set names. notLocated fs nm \<longrightarrow> nm \<in> set (missingNames fs names))
   \<and> ((\<forall>f\<in>set fs. fieldId f \<noteq> []) \<longrightarrow> missingNames fs names = filter (notLocated fs) names)"
  by (auto simp add: missingNames_def notLocated_idMissing idMissing_notLocated
      intro: filter_cong)

lemma missingNames_empty:
  "missingNames fs names = [] \<Longrightarrow> nm \<in> set names \<Longrightarrow>
   firstMatch fs nm (assertId (findFieldId fs nm))"
  by (rule findFieldId_firstMatch) (auto simp add: missingNames_def filter_empty_conv)

section \<open>The writer\<close>

lemma setValues_run:
  "forOf (\<lambda>fv. inWorld (setValue t (fst fv) recordId (snd fv))) fvs (sc, w) =
     ((case snd (setAll t recordId fvs) of None \<Rightarrow> Inr () | Some e \<Rightarrow> Inl e),
      (sc, emit (fst (setAll t recordId fvs)) [] w))"
  by (induction fvs arbitrary: w)
     (simp_all add: bindE_def setValue_def unitResult_def split: option.splits)

lemma writeRow_forOf:
  "writeRow t ids (n, k, d) =
     tryCatch
       (bindE (inWorld (addRecord t n)) (\<lambda>recordId.
        bindE (forOf (\<lambda>fv. inWorld (setValue t (fst fv) recordId (snd fv)))
                 (rowValues ids (k, d))) (\<lambda>_.
        modifyVars Suc)))
       (\<lambda>e. inWorld (consoleOut LogError (AddRowError k e)))"
  by (rule ext) (simp add: writeRow_def rowValues_def bindE_def tryCatch_def
      split: prod.splits sum.splits)

lemma writeRow_run:
  "writeRow t ids ie (sc, w) =
     (Inr (), (if rowSucceeds t ids ie then Suc sc else sc,
               emit (fst (rowOutcome t ids ie)) (rowDiags t ids ie) w))"
proof -
  obtain n k d where ie: "ie = (n, k, d)" by (cases ie) auto
  show ?thesis
  proof (cases "addRecordHost t n")
    case (Inl e)
    then show ?thesis
      by (simp add: ie writeRow_forOf tryCatch_def bindE_def addRecord_def rowSucceeds_def
          rowOutcome_def rowDiags_def)
  next
    case (Inr recordId)
    then show ?thesis
      by (cases "snd (setAll t recordId (rowValues ids (k, d)))")
         (simp_all add: ie writeRow_forOf tryCatch_def bindE_def addRecord_def rowSucceeds_def
            rowOutcome_def rowDiags_def setValues_run)
  qed
qed

lemma forOf_writeRow:
  "forOf (writeRow t ids) ies (sc, w) =
     (Inr (), (sc + length (filter (rowSucceeds t ids) ies),
               emit (concat (map (\<lambda>ie. fst (rowOutcome t ids ie)) ies))
                    (concat (map (rowDiags t ids) ies)) w))"
  by (induction ies arbitrary: sc w) (simp_all add: bindE_def writeRow_run)

lemma bulkInsert_run:
  "bulkInsert t ids data w =
     (Inr (bulkSucceeds t ids data), emit (bulkCalls t ids data) (bulkDiags t ids data) w)"
  by (cases "addRecordsHost t (map (recordOf ids) data)")
     (auto simp add: bulkInsert_def bulkRecords_def tryCatch_def bindE_def addRecords_def
        unitResult_def bulkSucceeds_def bulkCalls_def bulkDiags_def)

lemma writeGroups_run:
  "writeGroups t ids data w =
     (if bulkSucceeds t ids data
      then (Inr (), emit (bulkCalls t ids data)
                      ((LogInfo, StartWriting (length data)) # bulkDiags t ids data) w)
      else (if successCount t ids data = 0 then Inl (Error NoRecordWritten) else Inr (),
            emit (bulkCalls t ids data @ rowsCalls t ids data)
              ((LogInfo, StartWriting (length data)) # bulkDiags t ids data
               @ rowsDiags t ids data
               @ verdictDiags (successCount t ids data) (length data)) w))"
  by (simp add: writeGroups_def bindE_def bulkInsert_run runVars_def forOf_writeRow
      successCount_def rowsCalls_def rowsDiags_def verdictDiags_def)

lemma writeDataToNewTable_run:
  assumes "targetOpens t ids"
  shows "writeDataToNewTable t data w =
     (if bulkSucceeds t ids data
      then (Inr (), emit (targetOpenCalls t ids @ bulkCalls t ids data)
                      ((LogInfo, StartWriting (length data)) # bulkDiags t ids data) w)
      else if successCount t ids data = 0
      then (Inl (Error NoRecordWritten),
            emit (targetOpenCalls t ids @ bulkCalls t ids data @ rowsCalls t ids data)
              ((LogInfo, StartWriting (length data)) # bulkDiags t ids data
               @ rowsDiags t ids data
               @ verdictDiags (successCount t ids data) (length data)
               @ [(LogError, WriteError (Error NoRecordWritten))]) w)
      else (Inr (),
            emit (targetOpenCalls t ids @ bulkCalls t ids data @ rowsCalls t ids data)
              ((LogInfo, StartWriting (length data)) # bulkDiags t ids data
               @ rowsDiags t ids data
               @ verdictDiags (successCount t ids data) (length data)) w))"
proof -
  from assms obtain fs where fs: "getFieldMetaListHost t = Inr (Some fs)" "fs \<noteq> []"
    "resolveTargetFields fs = Inr ids"
    "list_all (\<lambda>fid. getFieldHost t fid = None) (targetFieldIdList ids)"
    by (auto simp add: targetOpens_def split: sum.splits option.splits)
  show ?thesis
    unfolding writeDataToNewTable_def
    by (simp add: tryCatch_def bindE_def getFieldMetaList_def fs forOf_getField [OF fs(4)]
        writeGroups_run targetOpenCalls_def rethrow_def)
qed








section \<open>The orchestration\<close>

lemma forOf_addField:
  "list_all (\<lambda>c. addFieldHost t c = None) cs \<Longrightarrow>
   forOf (addField t) cs w = (Inr (), emit (map (AddField (tableId t)) cs) [] w)"
  by (induction cs arbitrary: w) (simp_all add: bindE_def addField_def unitResult_def)

text \<open>
  Both comparisons of the month check are false of \<open>NaN\<close>: the check rejects the
  numbers below 1 and above 12, the infinities among them, and lets \<open>NaN\<close> pass.
\<close>

lemma month_check_on_NaN: "\<not> jslt NaN (Num 1) \<and> \<not> jsgt NaN (Num 12)"
  by (simp add: jsgt_def)

lemma generate_run:
  assumes "reportOpens env b sourceTableId month sourceTable newTable"
  shows "generate env b sourceTableId month w =
     tryCatch
       (bindE (getSourceData env sourceTable month) (\<lambda>sourceData.
        if sourceData = [] then throwE (Error (NoDataForMonth month))
        else
          bindE (consoleOut LogInfo WritingData) (\<lambda>_.
          bindE (writeDataToNewTable newTable sourceData) (\<lambda>_.
          consoleOut LogInfo ReportDone))))
       (\<lambda>e. bindE (consoleOut LogError (GenerateError e))
          (\<lambda>_. throwE (rethrow UnknownGenerateError e)))
       (emit (prepareCalls env b sourceTableId month newTable) (prepareDiags env month) w)"
proof -
  from assms obtain newTableId where
    a: "sourceTableId \<noteq> []" "\<not> jslt month (Num 1)" "\<not> jsgt month (Num 12)"
      "getTableByIdHost b sourceTableId = Inr (Some sourceTable)"
      "addTableHost b (newTableName env month) = Inr (Some (Some newTableId))"
      "newTableId \<noteq> []" "getTableByIdHost b newTableId = Inr (Some newTable)"
      "list_all (\<lambda>c. addFieldHost newTable c = None) targetFieldConfigs"
    by (auto simp add: reportOpens_def split: sum.splits option.splits)
  show ?thesis
    unfolding generate_def
    by (simp add: a tryCatch_def bindE_def getTableById_def addTable_def createFields_def
        forOf_addField [OF a(8)] prepareCalls_def prepareDiags_def createdTableId_def
        split: prod.splits sum.splits)
qed

lemma sourceOpens_fields: "sourceOpens t ids rs \<Longrightarrow> sourceFieldsOpen t ids"
  by (auto simp add: sourceOpens_def sourceFieldsOpen_def split: sum.splits option.splits)

lemma no_groups_iff:
  "foldl (groupStep env t ids month) g rs = [] \<longleftrightarrow>
     g = [] \<and> filter (contributes env t ids month) rs = []"
proof -
  have step: "groupStep env t ids month g r = [] \<longleftrightarrow> g = [] \<and> \<not> contributes env t ids month r"
    for g r
    by (cases g) (auto simp add: groupStep_def)
  show ?thesis
    by (induction rs arbitrary: g) (auto simp add: step)
qed

lemma recordCalls_reads: "list_all isCellRead (recordCalls env t ids month r)"
  by (simp add: recordCalls_def numericFieldIds_def)

lemma filter_isWrite_reads: "list_all isCellRead cs \<Longrightarrow> filter isWrite cs = []"
  by (induction cs) (auto elim: isCellRead.elims)

lemma filter_isWrite_records:
  "filter isWrite (concat (map (recordCalls env t ids month) rs)) = []"
  by (induction rs) (simp_all add: filter_isWrite_reads recordCalls_reads)

lemma getSourceData_empty_run:
  assumes "sourceFieldsOpen t ids" and "noRecordIds t"
  shows "getSourceData env t month w =
     (Inl (Error NoRecords),
      emit (openCalls t ids) [(LogError, SourceDataError (Error NoRecords))] w)"
proof -
  from assms(1) obtain fs where fs: "getFieldMetaListHost t = Inr (Some fs)" "fs \<noteq> []"
    "resolveSourceFields fs = Inr ids"
    "list_all (\<lambda>fid. getFieldHost t fid = None) (sourceFieldIdList ids)"
    by (auto simp add: sourceFieldsOpen_def split: sum.splits option.splits)
  from assms(2) show ?thesis
    unfolding getSourceData_def
    by (auto simp add: tryCatch_def bindE_def getFieldMetaList_def getRecordIdList_def fs
        forOf_getField [OF fs(4)] openCalls_def noRecordIds_def rethrow_def)
qed

lemma getSourceData_Inr_opens:
  assumes "fst (getSourceData env t month w) = Inr g"
  shows "\<exists>ids rs. sourceOpens t ids rs"
proof -
  let ?w1 = "emit [GetFieldMetaList (tableId t)] [] w"
  from assms obtain fs where fs: "getFieldMetaListHost t = Inr (Some fs)"
    by (cases "getFieldMetaListHost t"; cases "projr (getFieldMetaListHost t)")
       (auto simp add: getSourceData_def tryCatch_def bindE_def getFieldMetaList_def)
  from assms fs have ne: "fs \<noteq> []"
    by (auto simp add: getSourceData_def tryCatch_def bindE_def getFieldMetaList_def)
  from assms fs ne obtain ids where ids: "resolveSourceFields fs = Inr ids"
    by (cases "resolveSourceFields fs")
       (auto simp add: getSourceData_def tryCatch_def bindE_def getFieldMetaList_def)
  obtain r w2 where h: "forOf (getField t) (sourceFieldIdList ids) ?w1 = (r, w2)"
    by (cases "forOf (getField t) (sourceFieldIdList ids) ?w1") auto
  from assms fs ne ids h have r: "r = Inr ()"
    by (cases r)
       (auto simp add: getSourceData_def tryCatch_def bindE_def getFieldMetaList_def)
  with h have "fst (forOf (getField t) (sourceFieldIdList ids) ?w1) = Inr ()" by simp
  then have handles: "list_all (\<lambda>fid. getFieldHost t fid = None) (sourceFieldIdList ids)"
    by (rule forOf_getField_Inr)
  from assms fs ne ids obtain rs where rs: "getRecordIdListHost t = Inr (Some rs)" "rs \<noteq> []"
    by (cases "getRecordIdListHost t"; cases "projr (getRecordIdListHost t)")
       (auto simp add: getSourceData_def tryCatch_def bindE_def getFieldMetaList_def
          getRecordIdList_def forOf_getField [OF handles] split: if_splits)
  from fs ne ids handles rs have "sourceOpens t ids rs"
    by (simp add: sourceOpens_def)
  then show ?thesis by blast
qed

lemma getSourceData_empty_throws:
  assumes "noRecordIds t"
  shows "\<exists>e. fst (getSourceData env t month w) = Inl e"
proof (cases "fst (getSourceData env t month w)")
  case (Inl e)
  then show ?thesis by blast
next
  case (Inr g)
  from getSourceData_Inr_opens [OF Inr] obtain ids rs where "sourceOpens t ids rs" by blast
  with assms show ?thesis
    by (auto simp add: sourceOpens_def noRecordIds_def split: sum.splits option.splits)
qed

lemma generate_empty_source_fails:
  assumes "getTableByIdHost b sourceTableId = Inr (Some sourceTable)"
    and "noRecordIds sourceTable"
  shows "\<exists>e. fst (generate env b sourceTableId month w) = Inl e"
proof (cases "fst (generate env b sourceTableId month w)")
  case (Inl e)
  then show ?thesis by blast
next
  case (Inr u)
  have never: "getSourceData env sourceTable month w0 \<noteq> (Inr g, w1)" for w0 g w1
    using getSourceData_empty_throws [OF assms(2), of env month w0] by auto
  from Inr assms(1) have False
    by (auto simp add: generate_def tryCatch_def bindE_def getTableById_def addTable_def never
        split: if_splits prod.splits sum.splits option.splits)
  then show ?thesis ..
qed

section \<open>Records the month filter passes over\<close>

text \<open>
  The loop takes a falsy out-date value for no value at all: such a record is passed over
  silently, also when the value is the number 0 (the epoch as a timestamp).
\<close>

lemma falsy_date_is_absent:
  "\<not> truthy v \<Longrightarrow> \<not> dateInMonth env month v \<and> \<not> (truthy v \<and> isNaN (newDate env v))"
  by (simp add: dateInMonth_def)

lemma falsy_values:
  "\<not> truthy v \<longleftrightarrow>
     v = JUndefined \<or> v = JNull \<or> v = JBool False \<or> v = JNum NaN \<or> v = JNum (Num 0)
     \<or> v = JStr []"
  by (cases v) auto

lemma badDate_no_match: "badDate env t ids r \<Longrightarrow> \<not> matchesMonth env t ids month r"
  by (auto simp add: badDate_def matchesMonth_def dateInMonth_def split: sum.splits)

lemma badDate_groupStep: "badDate env t ids r \<Longrightarrow> groupStep env t ids month g r = g"
  by (simp add: groupStep_def contributes_def badDate_no_match)

lemma badDate_varsStep: "badDate env t ids r \<Longrightarrow> varsStep env t ids month vs r = vs"
  by (simp add: varsStep_def badDate_no_match)

lemma badDate_diags:
  "badDate env t ids r \<Longrightarrow>
   recordDiags env t ids month r = [(LogWarn, InvalidDateFormat r (dateValue t ids r))]"
  by (auto simp add: badDate_def recordDiags_def dateValue_def split: sum.splits)

lemma badDate_calls:
  "badDate env t ids r \<Longrightarrow>
   recordCalls env t ids month r = [GetValue (tableId t) (outDateFieldId ids) r]"
  by (simp add: recordCalls_def badDate_no_match)

lemma foldl_skip:
  "(\<And>g r. \<not> P r \<Longrightarrow> f g r = g) \<Longrightarrow> foldl f g (filter P rs) = foldl f g rs"
  by (induction rs arbitrary: g) simp_all



section \<open>Claims\<close>



text \<open>
  C2. The claim: the shares sum and the four monetary sums of every group are rounded to
  two decimals, as \<open>Math.round(x * 100) / 100\<close>, before they are persisted, alike on
  the bulk path and on the per-row path. The per-row path does so; the bulk path does
  not. For a group with shares 0.125 and preparation fee 12.345 the bulk insert (which
  succeeds on \<open>reportTable\<close>) hands 0.125 and 12.345 to \<open>addRecords\<close>, while the
  per-row path (taken on \<open>noBulkTable\<close>, where the bulk insert throws) sets 0.13 and
  12.35 for the same group.
\<close>

theorem bulk_path_persists_unrounded_sums:
  "writeDataToNewTable reportTable eighthGroups emptyWorld =
     (Inr (),
      emit (targetOpenCalls reportTable reportIds @
            [AddRecords ''tblReport''
               [[(''fldProject'', JStr ''A''), (''fldPersons'', JNum (Num 1)),
                 (''fldShares'', JNum (Num (1 / 8))),
                 (''fldFee'', JNum (Num (12345 / 1000))),
                 (''fldReward'', JNum (Num 0)), (''fldCancel'', JNum (Num 0)),
                 (''fldUrgent'', JNum (Num 0))]]])
        [(LogInfo, StartWriting 1), (LogInfo, BulkAdded 1)] emptyWorld)
   \<and> round2 (Num (1 / 8)) = Num (13 / 100)
   \<and> round2 (Num (12345 / 1000)) = Num (1235 / 100)
   \<and> newCalls emptyWorld (snd (writeDataToNewTable noBulkTable eighthGroups emptyWorld)) =
       targetOpenCalls noBulkTable reportIds @
       [AddRecords ''tblReport''
          [[(''fldProject'', JStr ''A''), (''fldPersons'', JNum (Num 1)),
            (''fldShares'', JNum (Num (1 / 8))),
            (''fldFee'', JNum (Num (12345 / 1000))),
            (''fldReward'', JNum (Num 0)), (''fldCancel'', JNum (Num 0)),
            (''fldUrgent'', JNum (Num 0))]],
        AddRecord ''tblReport'',
        SetValue ''tblReport'' ''fldProject'' ''r'' (JStr ''A''),
        SetValue ''tblReport'' ''fldPersons'' ''r'' (JNum (Num 1)),
        SetValue ''tblReport'' ''fldShares'' ''r'' (JNum (Num (13 / 100))),
        SetValue ''tblReport'' ''fldFee'' ''r'' (JNum (Num (1235 / 100))),
        SetValue ''tblReport'' ''fldReward'' ''r'' (JNum (Num 0)),
        SetValue ''tblReport'' ''fldCancel'' ''r'' (JNum (Num 0)),
        SetValue ''tblReport'' ''fldUrgent'' ''r'' (JNum (Num 0))]"
proof -
  have opens: "targetOpens reportTable reportIds"
    by code_simp
  have bulk: "bulkSucceeds reportTable reportIds eighthGroups"
    by code_simp
  have bc: "bulkCalls reportTable reportIds eighthGroups =
      [AddRecords ''tblReport''
         [[(''fldProject'', JStr ''A''), (''fldPersons'', JNum (Num 1)),
           (''fldShares'', JNum (Num (1 / 8))),
           (''fldFee'', JNum (Num (12345 / 1000))),
           (''fldReward'', JNum (Num 0)), (''fldCancel'', JNum (Num 0)),
           (''fldUrgent'', JNum (Num 0))]]]"
    by code_simp
  have bd: "bulkDiags reportTable reportIds eighthGroups = [(LogInfo, BulkAdded 1)]"
    by code_simp
  have len: "length eighthGroups = 1"
    by code_simp
  have one: "writeDataToNewTable reportTable eighthGroups emptyWorld =
     (Inr (),
      emit (targetOpenCalls reportTable reportIds @
            [AddRecords ''tblReport''
               [[(''fldProject'', JStr ''A''), (''fldPersons'', JNum (Num 1)),
                 (''fldShares'', JNum (Num (1 / 8))),
                 (''fldFee'', JNum (Num (12345 / 1000))),
                 (''fldReward'', JNum (Num 0)), (''fldCancel'', JNum (Num 0)),
                 (''fldUrgent'', JNum (Num 0))]]])
        [(LogInfo, StartWriting 1), (LogInfo, BulkAdded 1)] emptyWorld)"
    unfolding writeDataToNewTable_run [OF opens] bc bd len using bulk by simp
  have r1: "round2 (Num (1 / 8)) = Num (13 / 100)"
    by code_simp
  have r2: "round2 (Num (12345 / 1000)) = Num (1235 / 100)"
    by code_simp
  have opens': "targetOpens noBulkTable reportIds"
    by code_simp
  have bulk': "\<not> bulkSucceeds noBulkTable reportIds eighthGroups"
    by code_simp
  have bc': "bulkCalls noBulkTable reportIds eighthGroups =
      [AddRecords ''tblReport''
         [[(''fldProject'', JStr ''A''), (''fldPersons'', JNum (Num 1)),
           (''fldShares'', JNum (Num (1 / 8))),
           (''fldFee'', JNum (Num (12345 / 1000))),
           (''fldReward'', JNum (Num 0)), (''fldCancel'', JNum (Num 0)),
           (''fldUrgent'', JNum (Num 0))]]]"
    by code_simp
  have rc': "rowsCalls noBulkTable reportIds eighthGroups =
      [AddRecord ''tblReport'',
       SetValue ''tblReport'' ''fldProject'' ''r'' (JStr ''A''),
       SetValue ''tblReport'' ''fldPersons'' ''r'' (JNum (Num 1)),
       SetValue ''tblReport'' ''fldShares'' ''r'' (JNum (Num (13 / 100))),
       SetValue ''tblReport'' ''fldFee'' ''r'' (JNum (Num (1235 / 100))),
       SetValue ''tblReport'' ''fldReward'' ''r'' (JNum (Num 0)),
       SetValue ''tblReport'' ''fldCancel'' ''r'' (JNum (Num 0)),
       SetValue ''tblReport'' ''fldUrgent'' ''r'' (JNum (Num 0))]"
    by code_simp
  have sc': "successCount noBulkTable reportIds eighthGroups = 1"
    by code_simp
  have two: "newCalls emptyWorld (snd (writeDataToNewTable noBulkTable eighthGroups emptyWorld))
      = targetOpenCalls noBulkTable reportIds @ bulkCalls noBulkTable reportIds eighthGroups
        @ rowsCalls noBulkTable reportIds eighthGroups"
    using bulk' by (simp add: writeDataToNewTable_run [OF opens'] sc' newCalls_def)
  from one r1 r2 two show ?thesis
    unfolding bc' rc' by simp
qed






text \<open>
  C5. When the steps before the aggregation succeed and the aggregation returns no group,
  \<open>generate\<close> throws the no-data error for the requested month (and logs it with
  \<open>console.error\<close>) instead of returning; none of the calls it made on the host writes
  a group (\<open>addRecords\<close>, \<open>addRecord\<close>, \<open>setValue\<close>).
\<close>

theorem generate_without_groups_fails:
  assumes "reportOpens env b sourceTableId month sourceTable newTable"
    and "fst (getSourceData env sourceTable month w0) = Inr []"
  shows "\<exists>w'. generate env b sourceTableId month w = (Inl (Error (NoDataForMonth month)), w')
           \<and> (LogError, GenerateError (Error (NoDataForMonth month))) \<in> set (console w')
           \<and> filter isWrite (newCalls w w') = []"
proof -
  from getSourceData_Inr_opens [OF assms(2)] obtain ids rs
    where opens: "sourceOpens sourceTable ids rs" by blast
  from assms(2) have none: "foldl (groupStep env sourceTable ids month) [] rs = []"
    by (simp add: getSourceData_groups [OF opens])
  then have g: "groupedData (finalVars env sourceTable ids month rs) = []"
    by (simp add: groupedData_finalVars)
  have writes: "filter isWrite (prepareCalls env b sourceTableId month newTable) = []"
    "filter isWrite (openCalls sourceTable ids) = []"
    by (simp_all add: prepareCalls_def openCalls_def filter_empty_conv
        sourceFieldIdList_def)
  show ?thesis
    unfolding generate_run [OF assms(1)]
    by (simp add: tryCatch_def bindE_def getSourceData_run [OF opens] g rethrow_def
        newCalls_def writes filter_isWrite_records)
qed

theorem generate_without_groups_fails_witness:
  "reportOpens utcEnv (exampleBase februaryTable reportTable) ''tblSource'' (Num 7)
     februaryTable reportTable
   \<and> fst (getSourceData utcEnv februaryTable (Num 7) emptyWorld) = Inr []
   \<and> (\<exists>w'. generate utcEnv (exampleBase februaryTable reportTable) ''tblSource'' (Num 7)
              emptyWorld = (Inl (Error (NoDataForMonth (Num 7))), w')
          \<and> filter isWrite (newCalls emptyWorld w') = [])"
proof -
  have fields: "list_all (\<lambda>c. addFieldHost reportTable c = None) targetFieldConfigs"
    by code_simp
  have opens: "reportOpens utcEnv (exampleBase februaryTable reportTable) ''tblSource''
      (Num 7) februaryTable reportTable"
    by (simp add: reportOpens_def exampleBase_def jsgt_def fields)
  have src: "sourceOpens februaryTable februaryIds februaryRecords"
    by code_simp
  have none: "foldl (groupStep utcEnv februaryTable februaryIds (Num 7)) [] februaryRecords = []"
    by code_simp
  have empty: "fst (getSourceData utcEnv februaryTable (Num 7) emptyWorld) = Inr []"
    by (simp add: getSourceData_groups [OF src] none)
  from generate_without_groups_fails [OF opens empty, of emptyWorld] opens empty
  show ?thesis by blast
qed

text \<open>
  C6. A call of \<open>generate\<close> with an empty source table id, or with a month below 1 or
  above 12, throws at once: the outcome is the error for the failed check and the world
  is the one before the call, so no call has reached the host and nothing was logged.
\<close>

theorem generate_rejects_bad_arguments:
  assumes "sourceTableId = [] \<or> jslt month (Num 1) \<or> jsgt month (Num 12)"
  shows "generate env b sourceTableId month w =
           (Inl (Error (if sourceTableId = [] then EmptySourceId else MonthOutOfRange)), w)
         \<and> calls (snd (generate env b sourceTableId month w)) = calls w"
  using assms by (auto simp add: generate_def)

theorem generate_rejects_bad_arguments_witness:
  "generate utcEnv (exampleBase februaryTable reportTable) [] (Num 2) emptyWorld
     = (Inl (Error EmptySourceId), emptyWorld)
   \<and> generate utcEnv (exampleBase februaryTable reportTable) ''tblSource'' (Num 13) emptyWorld
     = (Inl (Error MonthOutOfRange), emptyWorld)
   \<and> generate utcEnv (exampleBase februaryTable reportTable) ''tblSource'' (Num 0) emptyWorld
     = (Inl (Error MonthOutOfRange), emptyWorld)"
  using generate_rejects_bad_arguments
          [of "[]" "Num 2" utcEnv "exampleBase februaryTable reportTable" emptyWorld]
        generate_rejects_bad_arguments
          [of "''tblSource''" "Num 13" utcEnv "exampleBase februaryTable reportTable" emptyWorld]
        generate_rejects_bad_arguments
          [of "''tblSource''" "Num 0" utcEnv "exampleBase februaryTable reportTable" emptyWorld]
  by (simp add: jsgt_def)

text \<open>
  C7. A record whose out-date cell holds a value (a truthy one) that does not parse to a
  valid date leaves the loop variables (the groups and both counters) as they are, is
  reported with \<open>console.warn\<close>, and the loop goes on: for a source table that opens,
  \<open>getSourceData\<close> returns normally, the grouping it returns is the one of the table
  without these records, and the console holds the warning of each of them.
\<close>

theorem unparseable_date_is_skipped:
  "(badDate env t ids r \<longrightarrow>
      processRecord env t ids month r (vs, w) =
        (Inr (), (vs, emit [GetValue (tableId t) (outDateFieldId ids) r]
                        [(LogWarn, InvalidDateFormat r (dateValue t ids r))] w)))
   \<and> (sourceOpens t ids rs \<longrightarrow>
        (\<exists>g w'. getSourceData env t month w = (Inr g, w')
           \<and> g = foldl (groupStep env t ids month) [] (filter (\<lambda>r. \<not> badDate env t ids r) rs)
           \<and> (\<forall>r\<in>set rs. badDate env t ids r \<longrightarrow>
                 \<not> contributes env t ids month r
                 \<and> (LogWarn, InvalidDateFormat r (dateValue t ids r)) \<in> set (console w'))))"
proof (intro conjI impI)
  assume "badDate env t ids r"
  then show "processRecord env t ids month r (vs, w) =
        (Inr (), (vs, emit [GetValue (tableId t) (outDateFieldId ids) r]
                        [(LogWarn, InvalidDateFormat r (dateValue t ids r))] w))"
    by (simp add: processRecord_run badDate_varsStep badDate_diags badDate_calls)
next
  assume opens: "sourceOpens t ids rs"
  have skip: "foldl (groupStep env t ids month) []
                (filter (\<lambda>r. \<not> badDate env t ids r) rs)
              = foldl (groupStep env t ids month) [] rs"
    by (rule foldl_skip) (simp add: badDate_groupStep)
  have warned: "\<not> contributes env t ids month r
      \<and> (LogWarn, InvalidDateFormat r (dateValue t ids r))
          \<in> set (console (snd (getSourceData env t month w)))"
    if "r \<in> set rs" "badDate env t ids r" for r
    using that
    by (auto simp add: getSourceData_run [OF opens] contributes_def badDate_no_match
        badDate_diags intro!: bexI [of _ r])
  have run: "getSourceData env t month w =
      (Inr (foldl (groupStep env t ids month) [] (filter (\<lambda>r. \<not> badDate env t ids r) rs)),
       snd (getSourceData env t month w))"
    by (simp add: getSourceData_run [OF opens] groupedData_finalVars skip)
  show "\<exists>g w'. getSourceData env t month w = (Inr g, w')
           \<and> g = foldl (groupStep env t ids month) [] (filter (\<lambda>r. \<not> badDate env t ids r) rs)
           \<and> (\<forall>r\<in>set rs. badDate env t ids r \<longrightarrow>
                 \<not> contributes env t ids month r
                 \<and> (LogWarn, InvalidDateFormat r (dateValue t ids r)) \<in> set (console w'))"
  proof (intro exI conjI ballI impI)
    show "getSourceData env t month w =
      (Inr (foldl (groupStep env t ids month) [] (filter (\<lambda>r. \<not> badDate env t ids r) rs)),
       snd (getSourceData env t month w))"
      by (rule run)
  qed (use warned in \<open>simp_all\<close>)
qed

theorem unparseable_date_is_skipped_witness:
  "badDate utcEnv februaryTable februaryIds ''r4''
   \<and> sourceOpens februaryTable februaryIds februaryRecords
   \<and> (\<exists>g w'. getSourceData utcEnv februaryTable (Num 2) emptyWorld = (Inr g, w')
          \<and> groupCount g ''A'' = 2
          \<and> (LogWarn, InvalidDateFormat ''r4'' (JStr ''soon'')) \<in> set (console w'))"
proof -
  have bad: "badDate utcEnv februaryTable februaryIds ''r4''"
    by code_simp
  have opens: "sourceOpens februaryTable februaryIds februaryRecords"
    by code_simp
  have r4: "''r4'' \<in> set februaryRecords"
    by code_simp
  have v: "dateValue februaryTable februaryIds ''r4'' = JStr ''soon''"
    by code_simp
  have a: "groupCount (foldl (groupStep utcEnv februaryTable februaryIds (Num 2)) []
      (filter (\<lambda>r. \<not> badDate utcEnv februaryTable februaryIds r) februaryRecords)) ''A'' = 2"
    by code_simp
  from unparseable_date_is_skipped [of utcEnv februaryTable februaryIds "''r4''" "Num 2"
      initialVars emptyWorld februaryRecords] opens
  obtain g w' where run: "getSourceData utcEnv februaryTable (Num 2) emptyWorld = (Inr g, w')"
    and g: "g = foldl (groupStep utcEnv februaryTable februaryIds (Num 2)) []
      (filter (\<lambda>r. \<not> badDate utcEnv februaryTable februaryIds r) februaryRecords)"
    and warn: "\<forall>r\<in>set februaryRecords. badDate utcEnv februaryTable februaryIds r \<longrightarrow>
        \<not> contributes utcEnv februaryTable februaryIds (Num 2) r
        \<and> (LogWarn, InvalidDateFormat r (dateValue februaryTable februaryIds r))
            \<in> set (console w')"
    by blast
  from warn r4 bad v
  have "(LogWarn, InvalidDateFormat ''r4'' (JStr ''soon'')) \<in> set (console w')"
    by force
  with run g a bad opens show ?thesis by blast
qed

text \<open>
  C8. Given the ordered field metadata of a table, the resolution of the seven source
  names (and likewise of the seven target names) either returns an id for every role,
  each the id of the first field in listing order that bears exactly the role's display
  name, or fails with the list of names it could not resolve. That list is not empty and
  holds every name that no field bears (all of them, in role order, not only the first);
  when no field id is empty it holds exactly those names. \<open>getSourceData\<close> and
  \<open>writeDataToNewTable\<close> throw one error carrying that list.
\<close>

theorem field_resolution_by_name:
  "(\<forall>ids. resolveSourceFields fs = Inr ids \<longrightarrow>
       list_all2 (firstMatch fs) sourceNames (sourceFieldIdList ids))
   \<and> (\<forall>ms. resolveSourceFields fs = Inl ms \<longrightarrow>
         ms \<noteq> [] \<and> (\<forall>nm\<in>set sourceNames. notLocated fs nm \<longrightarrow> nm \<in> set ms)
         \<and> ((\<forall>f\<in>set fs. fieldId f \<noteq> []) \<longrightarrow> ms = filter (notLocated fs) sourceNames)
         \<and> (getFieldMetaListHost t = Inr (Some fs) \<and> fs \<noteq> [] \<longrightarrow>
               fst (getSourceData env t month w) = Inl (Error (MissingSourceFields ms))))
   \<and> (\<forall>ids. resolveTargetFields fs = Inr ids \<longrightarrow>
         list_all2 (firstMatch fs) targetNames (targetFieldIdList ids))
   \<and> (\<forall>ms. resolveTargetFields fs = Inl ms \<longrightarrow>
         ms \<noteq> [] \<and> (\<forall>nm\<in>set targetNames. notLocated fs nm \<longrightarrow> nm \<in> set ms)
         \<and> ((\<forall>f\<in>set fs. fieldId f \<noteq> []) \<longrightarrow> ms = filter (notLocated fs) targetNames)
         \<and> (getFieldMetaListHost t = Inr (Some fs) \<and> fs \<noteq> [] \<longrightarrow>
               fst (writeDataToNewTable t data w) = Inl (Error (MissingTargetFields ms))))"
proof (intro conjI allI impI)
  fix ids assume "resolveSourceFields fs = Inr ids"
  then have e: "missingNames fs sourceNames = []" and ids: "ids =
      \<lparr>productCategoryFieldId = assertId (findFieldId fs SOURCE_PRODUCT_CATEGORY),
       outDateFieldId = assertId (findFieldId fs SOURCE_OUT_DATE),
       sharesFieldId = assertId (findFieldId fs SOURCE_SHARES),
       preparationFeeFieldId = assertId (findFieldId fs SOURCE_PREPARATION_FEE),
       rewardDeductionFieldId = assertId (findFieldId fs SOURCE_REWARD_DEDUCTION),
       cancelFeeFieldId = assertId (findFieldId fs SOURCE_CANCEL_FEE),
       urgentFeeFieldId = assertId (findFieldId fs SOURCE_URGENT_FEE)\<rparr>"
    by (simp_all add: resolveSourceFields_missing split: if_splits)
  show "list_all2 (firstMatch fs) sourceNames (sourceFieldIdList ids)"
    unfolding ids by (simp add: sourceNames_def sourceFieldIdList_def missingNames_empty [OF e])
next
  fix ids assume "resolveTargetFields fs = Inr ids"
  then have e: "missingNames fs targetNames = []" and ids: "ids =
      \<lparr>projectFieldId = assertId (findFieldId fs TARGET_PROJECT),
       personCountFieldId = assertId (findFieldId fs TARGET_PERSON_COUNT),
       sharesTargetId = assertId (findFieldId fs TARGET_SHARES),
       preparationFeeTargetId = assertId (findFieldId fs TARGET_PREPARATION_FEE),
       rewardDeductionTargetId = assertId (findFieldId fs TARGET_REWARD_DEDUCTION),
       cancelFeeTargetId = assertId (findFieldId fs TARGET_CANCEL_FEE),
       urgentFeeTargetId = assertId (findFieldId fs TARGET_URGENT_FEE)\<rparr>"
    by (simp_all add: resolveTargetFields_missing split: if_splits)
  show "list_all2 (firstMatch fs) targetNames (targetFieldIdList ids)"
    unfolding ids by (simp add: targetNames_def targetFieldIdList_def missingNames_empty [OF e])
next
  fix ms assume r: "resolveSourceFields fs = Inl ms"
  then have ms: "ms = missingNames fs sourceNames" "ms \<noteq> []"
    by (auto simp add: resolveSourceFields_missing split: if_splits)
  show "ms \<noteq> []" by (rule ms(2))
  show "\<forall>nm\<in>set sourceNames. notLocated fs nm \<longrightarrow> nm \<in> set ms"
    unfolding ms(1) using missingNames_props by blast
  show "ms = filter (notLocated fs) sourceNames" if "\<forall>f\<in>set fs. fieldId f \<noteq> []"
    unfolding ms(1) using missingNames_props that by blast
  show "fst (getSourceData env t month w) = Inl (Error (MissingSourceFields ms))"
    if "getFieldMetaListHost t = Inr (Some fs) \<and> fs \<noteq> []"
    using that r
    by (simp add: getSourceData_def tryCatch_def bindE_def getFieldMetaList_def rethrow_def)
next
  fix ms assume r: "resolveTargetFields fs = Inl ms"
  then have ms: "ms = missingNames fs targetNames" "ms \<noteq> []"
    by (auto simp add: resolveTargetFields_missing split: if_splits)
  show "ms \<noteq> []" by (rule ms(2))
  show "\<forall>nm\<in>set targetNames. notLocated fs nm \<longrightarrow> nm \<in> set ms"
    unfolding ms(1) using missingNames_props by blast
  show "ms = filter (notLocated fs) targetNames" if "\<forall>f\<in>set fs. fieldId f \<noteq> []"
    unfolding ms(1) using missingNames_props that by blast
  show "fst (writeDataToNewTable t data w) = Inl (Error (MissingTargetFields ms))"
    if "getFieldMetaListHost t = Inr (Some fs) \<and> fs \<noteq> []"
    using that r
    by (simp add: writeDataToNewTable_def tryCatch_def bindE_def getFieldMetaList_def
        rethrow_def)
qed

theorem field_resolution_by_name_witness:
  "resolveSourceFields duplicateFields = Inr (februaryIds\<lparr>sharesFieldId := ''fldOld''\<rparr>)
   \<and> list_all2 (firstMatch duplicateFields) sourceNames
       (sourceFieldIdList (februaryIds\<lparr>sharesFieldId := ''fldOld''\<rparr>))
   \<and> resolveTargetFields (take 2 reportFields) = Inl (drop 2 targetNames)
   \<and> list_all (notLocated (take 2 reportFields)) (drop 2 targetNames)
   \<and> drop 2 targetNames = filter (notLocated (take 2 reportFields)) targetNames"
proof -
  have src: "resolveSourceFields duplicateFields = Inr (februaryIds\<lparr>sharesFieldId := ''fldOld''\<rparr>)"
    by code_simp
  have tgt: "resolveTargetFields (take 2 reportFields) = Inl (drop 2 targetNames)"
    by code_simp
  have ids: "\<forall>f\<in>set (take 2 reportFields). fieldId f \<noteq> []"
    by code_simp
  have nl: "list_all (notLocated (take 2 reportFields)) (drop 2 targetNames)"
    by code_simp
  from field_resolution_by_name [of duplicateFields februaryTable utcEnv "Num 2" emptyWorld "[]"]
    src
  have one: "list_all2 (firstMatch duplicateFields) sourceNames
       (sourceFieldIdList (februaryIds\<lparr>sharesFieldId := ''fldOld''\<rparr>))"
    by blast
  from field_resolution_by_name [of "take 2 reportFields" reportTable utcEnv "Num 2" emptyWorld
      "[]"] tgt ids
  have two: "drop 2 targetNames = filter (notLocated (take 2 reportFields)) targetNames"
    by blast
  from src tgt nl one two show ?thesis by blast
qed



text \<open>
  C10 (as amended). For a source table whose record-identifier list is empty (or null):
  \<open>getSourceData\<close> never returns a grouping, so \<open>generate\<close> fails and the test for
  "no data for the month" is never reached; and when the steps before the record list
  succeed (the arguments pass the checks, the source table is found, the report table and
  its fields are created, the source fields resolve and their handles are fetched),
  \<open>generate\<close> fails with the "no records" error without having read a single cell.
\<close>

theorem generate_empty_source_table:
  "(getTableByIdHost b sourceTableId = Inr (Some sourceTable) \<and> noRecordIds sourceTable \<longrightarrow>
      (\<forall>w0. \<exists>e. fst (getSourceData env sourceTable month w0) = Inl e)
      \<and> (\<exists>e. fst (generate env b sourceTableId month w) = Inl e))
   \<and> (reportOpens env b sourceTableId month sourceTable newTable
        \<and> sourceFieldsOpen sourceTable ids \<and> noRecordIds sourceTable \<longrightarrow>
        (\<exists>w'. generate env b sourceTableId month w = (Inl (Error NoRecords), w')
           \<and> filter isCellRead (newCalls w w') = []
           \<and> filter isWrite (newCalls w w') = []))"
proof (intro conjI impI allI)
  fix w0
  assume "getTableByIdHost b sourceTableId = Inr (Some sourceTable) \<and> noRecordIds sourceTable"
  then show "\<exists>e. fst (getSourceData env sourceTable month w0) = Inl e"
    using getSourceData_empty_throws by blast
next
  assume "getTableByIdHost b sourceTableId = Inr (Some sourceTable) \<and> noRecordIds sourceTable"
  then show "\<exists>e. fst (generate env b sourceTableId month w) = Inl e"
    using generate_empty_source_fails by blast
next
  assume a: "reportOpens env b sourceTableId month sourceTable newTable
        \<and> sourceFieldsOpen sourceTable ids \<and> noRecordIds sourceTable"
  then have opens: "reportOpens env b sourceTableId month sourceTable newTable"
    and src: "sourceFieldsOpen sourceTable ids" and none: "noRecordIds sourceTable"
    by simp_all
  have nocalls: "filter isCellRead (prepareCalls env b sourceTableId month newTable) = []"
    "filter isCellRead (openCalls sourceTable ids) = []"
    "filter isWrite (prepareCalls env b sourceTableId month newTable) = []"
    "filter isWrite (openCalls sourceTable ids) = []"
    by (simp_all add: prepareCalls_def openCalls_def filter_empty_conv sourceFieldIdList_def)
  show "\<exists>w'. generate env b sourceTableId month w = (Inl (Error NoRecords), w')
           \<and> filter isCellRead (newCalls w w') = []
           \<and> filter isWrite (newCalls w w') = []"
    unfolding generate_run [OF opens]
    by (simp add: tryCatch_def bindE_def getSourceData_empty_run [OF src none] rethrow_def
        newCalls_def nocalls)
qed

theorem generate_empty_source_table_witness:
  "reportOpens utcEnv (exampleBase emptyTable reportTable) ''tblSource'' (Num 2)
     emptyTable reportTable
   \<and> sourceFieldsOpen emptyTable februaryIds \<and> noRecordIds emptyTable
   \<and> (\<exists>w'. generate utcEnv (exampleBase emptyTable reportTable) ''tblSource'' (Num 2)
              emptyWorld = (Inl (Error NoRecords), w')
          \<and> filter isCellRead (newCalls emptyWorld w') = [])"
proof -
  have fields: "list_all (\<lambda>c. addFieldHost reportTable c = None) targetFieldConfigs"
    by code_simp
  have opens: "reportOpens utcEnv (exampleBase emptyTable reportTable) ''tblSource''
      (Num 2) emptyTable reportTable"
    by (simp add: reportOpens_def exampleBase_def jsgt_def fields)
  have src: "sourceFieldsOpen emptyTable februaryIds"
    by code_simp
  have none: "noRecordIds emptyTable"
    by code_simp
  from generate_empty_source_table [of "exampleBase emptyTable reportTable" "''tblSource''"
      emptyTable utcEnv "Num 2" emptyWorld reportTable februaryIds] opens src none
  show ?thesis by blast
qed

text \<open>
  C10 as stated fails: \<open>sixFieldTable\<close> has no record and lacks a required field, and
  \<open>generate\<close> fails with the missing-fields error, not with the "no records" error.
\<close>

theorem generate_empty_source_table_counterexample:
  "noRecordIds sixFieldTable
   \<and> fst (generate utcEnv (exampleBase sixFieldTable reportTable) ''tblSource'' (Num 2)
            emptyWorld) = Inl (Error (MissingSourceFields [SOURCE_URGENT_FEE]))
   \<and> fst (generate utcEnv (exampleBase sixFieldTable reportTable) ''tblSource'' (Num 2)
            emptyWorld) \<noteq> Inl (Error NoRecords)"
proof -
  have none: "noRecordIds sixFieldTable"
    by code_simp
  have fields: "list_all (\<lambda>c. addFieldHost reportTable c = None) targetFieldConfigs"
    by code_simp
  have opens: "reportOpens utcEnv (exampleBase sixFieldTable reportTable) ''tblSource''
      (Num 2) sixFieldTable reportTable"
    by (simp add: reportOpens_def exampleBase_def jsgt_def fields)
  have metas: "getFieldMetaListHost sixFieldTable = Inr (Some (take 6 februaryFields))"
    by (simp add: sixFieldTable_def cellsTable_def)
  have ne: "februaryFields \<noteq> []"
    by code_simp
  have missing: "resolveSourceFields (take 6 februaryFields) = Inl [SOURCE_URGENT_FEE]"
    by code_simp
  have src: "getSourceData utcEnv sixFieldTable (Num 2) w0
      = (Inl (Error (MissingSourceFields [SOURCE_URGENT_FEE])),
         emit [GetFieldMetaList (tableId sixFieldTable)]
           [(LogError, SourceDataError (Error (MissingSourceFields [SOURCE_URGENT_FEE])))] w0)"
    for w0
    by (simp add: getSourceData_def tryCatch_def bindE_def getFieldMetaList_def metas ne
        missing rethrow_def)
  have "fst (generate utcEnv (exampleBase sixFieldTable reportTable) ''tblSource'' (Num 2)
            emptyWorld) = Inl (Error (MissingSourceFields [SOURCE_URGENT_FEE]))"
    unfolding generate_run [OF opens]
    by (simp add: tryCatch_def bindE_def rethrow_def src)
  with none show ?thesis by simp
qed

end
